theory Spec2Isabelle
  imports Complex_Main "HOL-Library.Sublist"
begin

section \<open>DocxCheck: the request pipeline of \<^verbatim>\<open>server.js\<close>\<close>

text \<open>
  A shallow embedding of the Express routes of \<^verbatim>\<open>server.js\<close>: phone/OTP login with
  session-token issuance, the token-checking middleware, the three analysis routes with
  their history writes, and the history listing. Everything the handlers take from
  outside (clock, random draw, the generative model's reply, store failures) is an
  explicit argument; every \<^verbatim>\<open>throw\<close> is a value.
\<close>

subsection \<open>JavaScript values\<close>

text \<open>
  Numbers are IEEE doubles in the source. A finite double is the rational it denotes, so
  comparisons are exact here; the two places where the decimal text of a double matters
  (\<^verbatim>\<open>Number.prototype.toString\<close> beyond the safe integers, and the conversion of a
  string to a number) are primitives of the runtime and are taken as parameters.
\<close>

datatype jsnum = NaN | NegInfinity | Finite rat | PosInfinity

text \<open>
  The values \<^verbatim>\<open>JSON.parse\<close> can return, and \<^verbatim>\<open>undefined\<close> for what a property read
  yields when the property is missing. An object is the list of its own properties.
  Strings are lists of \<^typ>\<open>char\<close>; \<^verbatim>\<open>length\<close> and indexing of a string value agree with
  the source on ASCII text.
\<close>

datatype js =
    JUndefined
  | JNull
  | JBool bool
  | JNum jsnum
  | JStr string
  | JArr "js list"
  | JObj "(string \<times> js) list"

datatype exn = TypeError | ValidationError

record runtime =
  fractionToString :: "rat \<Rightarrow> string"
  stringToNumber :: "string \<Rightarrow> jsnum"

definition bind_e :: "exn + 'a \<Rightarrow> ('a \<Rightarrow> exn + 'b) \<Rightarrow> exn + 'b" where
  "bind_e m f = (case m of Inl e \<Rightarrow> Inl e | Inr x \<Rightarrow> f x)"

subsubsection \<open>Decimal text of integers\<close>

definition digit_char :: "nat \<Rightarrow> char" where
  "digit_char d = ''0123456789'' ! d"

fun digits :: "nat \<Rightarrow> string" where
  "digits n = (if n < 10 then [digit_char n] else digits (n div 10) @ [digit_char (n mod 10)])"

declare digits.simps [simp del]

definition int_toString :: "int \<Rightarrow> string" where
  "int_toString i = (if i < 0 then CHR ''-'' # digits (nat (- i)) else digits (nat i))"

definition is_safe_integer :: "rat \<Rightarrow> bool" where
  "is_safe_integer r = (r = of_int \<lfloor>r\<rfloor> \<and> \<bar>r\<bar> < 9007199254740992)"

text \<open>
  \<^verbatim>\<open>Number.prototype.toString()\<close>: a safe integer prints as its decimal digits; any other
  finite number through the runtime.
\<close>

definition Number_toString :: "runtime \<Rightarrow> jsnum \<Rightarrow> string" where
  "Number_toString rt n =
     (case n of
        NaN \<Rightarrow> ''NaN''
      | NegInfinity \<Rightarrow> ''-Infinity''
      | PosInfinity \<Rightarrow> ''Infinity''
      | Finite r \<Rightarrow> (if is_safe_integer r then int_toString \<lfloor>r\<rfloor> else fractionToString rt r))"

subsubsection \<open>Property reads\<close>

text \<open>
  \<^verbatim>\<open>v.name\<close> for a name that no prototype defines (\<^verbatim>\<open>similarity_score\<close>, \<^verbatim>\<open>ref_lang\<close>,
  \<^verbatim>\<open>tgt_lang\<close>, \<^verbatim>\<open>sources\<close>, \<^verbatim>\<open>score\<close>): a TypeError on \<^verbatim>\<open>null\<close> and \<^verbatim>\<open>undefined\<close>,
  the own property of an object, \<^verbatim>\<open>undefined\<close> otherwise.
\<close>

fun get_prop :: "js \<Rightarrow> string \<Rightarrow> exn + js" where
  "get_prop JUndefined k = Inl TypeError"
| "get_prop JNull k = Inl TypeError"
| "get_prop (JObj kvs) k = Inr (case map_of kvs k of None \<Rightarrow> JUndefined | Some v \<Rightarrow> v)"
| "get_prop v k = Inr JUndefined"

text \<open>\<^verbatim>\<open>v[0]\<close>.\<close>

fun get_index0 :: "js \<Rightarrow> exn + js" where
  "get_index0 JUndefined = Inl TypeError"
| "get_index0 JNull = Inl TypeError"
| "get_index0 (JArr xs) = Inr (case xs of [] \<Rightarrow> JUndefined | x # _ \<Rightarrow> x)"
| "get_index0 (JStr s) = Inr (case s of [] \<Rightarrow> JUndefined | c # _ \<Rightarrow> JStr [c])"
| "get_index0 (JObj kvs) = Inr (case map_of kvs ''0'' of None \<Rightarrow> JUndefined | Some v \<Rightarrow> v)"
| "get_index0 v = Inr JUndefined"

text \<open>\<^verbatim>\<open>v.length\<close>.\<close>

fun get_length :: "js \<Rightarrow> exn + js" where
  "get_length JUndefined = Inl TypeError"
| "get_length JNull = Inl TypeError"
| "get_length (JArr xs) = Inr (JNum (Finite (of_nat (length xs))))"
| "get_length (JStr s) = Inr (JNum (Finite (of_nat (length s))))"
| "get_length (JObj kvs) = Inr (case map_of kvs ''length'' of None \<Rightarrow> JUndefined | Some v \<Rightarrow> v)"
| "get_length v = Inr JUndefined"

text \<open>\<^verbatim>\<open>v?.name\<close>: \<^verbatim>\<open>undefined\<close> on \<^verbatim>\<open>null\<close> and \<^verbatim>\<open>undefined\<close> instead of the TypeError.\<close>

definition opt_prop :: "js \<Rightarrow> string \<Rightarrow> js" where
  "opt_prop v k = (case get_prop v k of Inl _ \<Rightarrow> JUndefined | Inr x \<Rightarrow> x)"

subsubsection \<open>Conversion to string\<close>

text \<open>
  \<^verbatim>\<open>ToString\<close> as a template literal applies it. An object parsed from JSON has no
  callable own property, so an own \<^verbatim>\<open>toString\<close> key shadows
  \<^verbatim>\<open>Object.prototype.toString\<close> with something that cannot be called, \<^verbatim>\<open>valueOf\<close> yields
  no primitive either, and the conversion throws. An array is joined with commas, its
  \<^verbatim>\<open>null\<close> and \<^verbatim>\<open>undefined\<close> elements as empty strings.
\<close>

fun join_commas :: "string list \<Rightarrow> string" where
  "join_commas [] = []"
| "join_commas [s] = s"
| "join_commas (s # t # ss) = s @ CHR '','' # join_commas (t # ss)"

fun ToString :: "runtime \<Rightarrow> js \<Rightarrow> exn + string"
  and elements_toString :: "runtime \<Rightarrow> js list \<Rightarrow> exn + string list" where
  "ToString rt JUndefined = Inr ''undefined''"
| "ToString rt JNull = Inr ''null''"
| "ToString rt (JBool b) = Inr (if b then ''true'' else ''false'')"
| "ToString rt (JNum n) = Inr (Number_toString rt n)"
| "ToString rt (JStr s) = Inr s"
| "ToString rt (JArr xs) =
     (case elements_toString rt xs of Inl e \<Rightarrow> Inl e | Inr ss \<Rightarrow> Inr (join_commas ss))"
| "ToString rt (JObj kvs) =
     (if ''toString'' \<in> fst ` set kvs then Inl TypeError else Inr ''[object Object]'')"
| "elements_toString rt [] = Inr []"
| "elements_toString rt (x # xs) =
     (case (if x = JUndefined \<or> x = JNull then Inr [] else ToString rt x) of
        Inl e \<Rightarrow> Inl e
      | Inr s \<Rightarrow> (case elements_toString rt xs of Inl e \<Rightarrow> Inl e | Inr ss \<Rightarrow> Inr (s # ss)))"

text \<open>The method call \<^verbatim>\<open>v.toString()\<close>: a TypeError on \<^verbatim>\<open>null\<close> and \<^verbatim>\<open>undefined\<close>.\<close>

definition call_toString :: "runtime \<Rightarrow> js \<Rightarrow> exn + string" where
  "call_toString rt v = (if v = JUndefined \<or> v = JNull then Inl TypeError else ToString rt v)"

subsubsection \<open>Conversion to number and \<^verbatim>\<open>>=\<close>\<close>

definition ToNumber :: "runtime \<Rightarrow> js \<Rightarrow> exn + jsnum" where
  "ToNumber rt v =
     (case v of
        JUndefined \<Rightarrow> Inr NaN
      | JNull \<Rightarrow> Inr (Finite 0)
      | JBool b \<Rightarrow> Inr (Finite (if b then 1 else 0))
      | JNum n \<Rightarrow> Inr n
      | JStr s \<Rightarrow> Inr (stringToNumber rt s)
      | _ \<Rightarrow> (case ToString rt v of Inl e \<Rightarrow> Inl e | Inr s \<Rightarrow> Inr (stringToNumber rt s)))"

text \<open>\<^verbatim>\<open>n >= c\<close> for a finite constant \<open>c\<close>: false when \<open>n\<close> is \<^verbatim>\<open>NaN\<close>.\<close>

fun num_ge :: "jsnum \<Rightarrow> rat \<Rightarrow> bool" where
  "num_ge NaN c = False"
| "num_ge NegInfinity c = False"
| "num_ge (Finite r) c = (c \<le> r)"
| "num_ge PosInfinity c = True"

definition js_ge :: "runtime \<Rightarrow> js \<Rightarrow> rat \<Rightarrow> exn + bool" where
  "js_ge rt v c = (case ToNumber rt v of Inl e \<Rightarrow> Inl e | Inr n \<Rightarrow> Inr (num_ge n c))"

subsubsection \<open>Strict equality and string replacement\<close>

text \<open>
  \<^verbatim>\<open>a === b\<close>. Primitives compare by value (\<^verbatim>\<open>NaN\<close> differs from itself); arrays and
  objects compare by reference, and two values that reach a handler from different
  places (the store, the request body) are never the same reference.
\<close>

fun strict_eq :: "js \<Rightarrow> js \<Rightarrow> bool" where
  "strict_eq JUndefined JUndefined = True"
| "strict_eq JNull JNull = True"
| "strict_eq (JBool a) (JBool b) = (a = b)"
| "strict_eq (JNum a) (JNum b) = (a = b \<and> a \<noteq> NaN)"
| "strict_eq (JStr a) (JStr b) = (a = b)"
| "strict_eq a b = False"

text \<open>\<^verbatim>\<open>s.replace(pat, rep)\<close> with a string pattern: the first occurrence only.\<close>

fun js_replace :: "string \<Rightarrow> string \<Rightarrow> string \<Rightarrow> string" where
  "js_replace pat rep [] = (if pat = [] then rep else [])"
| "js_replace pat rep (c # cs) =
     (if prefix pat (c # cs) then rep @ drop (length pat) (c # cs)
      else c # js_replace pat rep cs)"

subsection \<open>The store\<close>

text \<open>
  \<^verbatim>\<open>UserSchema\<close> and \<^verbatim>\<open>HistorySchema\<close>. An \<^verbatim>\<open>ObjectId\<close> is a natural number, a \<^verbatim>\<open>Date\<close>
  its time value in milliseconds, and a field holding \<^verbatim>\<open>null\<close> is \<open>None\<close>. The field
  \<open>uid\<close> is \<^verbatim>\<open>_id\<close>, \<open>kind\<close> is \<^verbatim>\<open>type\<close>, and \<open>loggedAt\<close> is the \<^verbatim>\<open>createdAt\<close> of a
  history entry. Each collection is the list of its documents in insertion order.
\<close>

record user =
  uid :: nat
  phone :: string
  otp :: "string option"
  otpExpires :: "int option"
  createdAt :: int

record history_entry =
  userId :: nat
  kind :: string
  docs :: string
  score :: string
  details :: string
  verdict :: string
  loggedAt :: int

record store =
  users :: "user list"
  history :: "history_entry list"

definition empty_store :: store where
  "empty_store = \<lparr>users = [], history = []\<rparr>"

text \<open>A fresh \<^verbatim>\<open>_id\<close> for an inserted document: one no stored user has.\<close>

definition fresh_id :: "user list \<Rightarrow> nat" where
  "fresh_id us = fold (\<lambda>u m. max m (Suc (uid u))) us 0"

fun update_first :: "('a \<Rightarrow> bool) \<Rightarrow> ('a \<Rightarrow> 'a) \<Rightarrow> 'a list \<Rightarrow> 'a list" where
  "update_first P f [] = []"
| "update_first P f (x # xs) = (if P x then f x # xs else x # update_first P f xs)"

text \<open>\<^verbatim>\<open>User.findOne({ phone })\<close>.\<close>

definition findOne :: "string \<Rightarrow> store \<Rightarrow> user option" where
  "findOne p st = find (\<lambda>u. phone u = p) (users st)"

text \<open>\<^verbatim>\<open>User.findOneAndUpdate({ phone }, { otp, otpExpires }, { upsert: true, new: true })\<close>.\<close>

definition findOneAndUpdate :: "string \<Rightarrow> string \<Rightarrow> int \<Rightarrow> int \<Rightarrow> store \<Rightarrow> store" where
  "findOneAndUpdate p code expires t st =
     (case findOne p st of
        None \<Rightarrow>
          st\<lparr>users := users st @
            [\<lparr>uid = fresh_id (users st), phone = p, otp = Some code,
              otpExpires = Some expires, createdAt = t\<rparr>]\<rparr>
      | Some _ \<Rightarrow>
          st\<lparr>users := update_first (\<lambda>u. phone u = p)
            (\<lambda>u. u\<lparr>otp := Some code, otpExpires := Some expires\<rparr>) (users st)\<rparr>)"

text \<open>\<^verbatim>\<open>user.save()\<close> after the handler has set both challenge fields to \<^verbatim>\<open>null\<close>.\<close>

definition save_cleared :: "user \<Rightarrow> store \<Rightarrow> store" where
  "save_cleared usr st =
     st\<lparr>users := update_first (\<lambda>u. uid u = uid usr)
       (\<lambda>u. u\<lparr>otp := None, otpExpires := None\<rparr>) (users st)\<rparr>"

text \<open>
  \<^verbatim>\<open>History.create\<close>: the \<^verbatim>\<open>required\<close> validator of a String path rejects the empty
  string; a document that passes is appended.
\<close>

definition History_create :: "history_entry \<Rightarrow> store \<Rightarrow> exn + store" where
  "History_create e st =
     (if kind e = [] \<or> docs e = [] \<or> score e = [] then Inl ValidationError
      else Inr (st\<lparr>history := history st @ [e]\<rparr>))"

text \<open>\<^verbatim>\<open>History.find({ userId }).sort({ createdAt: -1 })\<close>.\<close>

definition History_find :: "nat \<Rightarrow> store \<Rightarrow> history_entry list" where
  "History_find i st = sort_key (\<lambda>e. - loggedAt e) (filter (\<lambda>e. userId e = i) (history st))"

subsection \<open>Session tokens\<close>

text \<open>
  \<^verbatim>\<open>jsonwebtoken\<close> is a dependency, not part of the repository; its tokens are symbolic
  here. A token is its payload together with the secret its signature was made with,
  and a signature verifies under that secret only. \<open>iat\<close> and \<open>exp\<close> are in seconds.
\<close>

record jwt =
  sub_id :: nat
  sub_phone :: string
  iat :: int
  exp :: int
  signed_with :: string

text \<open>
  The text of a header or of a bearer token: plain text holding no token, or some text
  followed by the compact serialisation of a token (which holds no space).
\<close>

datatype wire = Plain string | Token string jwt

text \<open>\<^verbatim>\<open>jwt.sign(payload, secret, { expiresIn: '7d' })\<close> at clock \<open>t\<close> (milliseconds).\<close>

definition jwt_sign :: "nat \<Rightarrow> string \<Rightarrow> string \<Rightarrow> int \<Rightarrow> jwt" where
  "jwt_sign i p secret t =
     \<lparr>sub_id = i, sub_phone = p, iat = t div 1000,
      exp = t div 1000 + 7 * 24 * 60 * 60, signed_with = secret\<rparr>"

datatype jwt_error = SecretMissing | Malformed | InvalidSignature | TokenExpired

text \<open>
  \<^verbatim>\<open>jwt.verify(token, secret)\<close> at clock \<open>t\<close>: no secret, not a token, wrong signature, or
  \<^verbatim>\<open>Math.floor(Date.now() / 1000) >= payload.exp\<close>.
\<close>

definition jwt_verify :: "wire \<Rightarrow> string option \<Rightarrow> int \<Rightarrow> jwt_error + jwt" where
  "jwt_verify w secret t =
     (case w of
        Plain s \<Rightarrow> Inl Malformed
      | Token pre tok \<Rightarrow>
          if pre \<noteq> [] then Inl Malformed
          else (case secret of
                  None \<Rightarrow> Inl SecretMissing
                | Some k \<Rightarrow>
                    if k = [] then Inl SecretMissing
                    else if signed_with tok \<noteq> k then Inl InvalidSignature
                    else if exp tok \<le> t div 1000 then Inl TokenExpired
                    else Inr tok))"

subsection \<open>Requests, the environment, responses\<close>

record config =
  JWT_SECRET :: "string option"

record upload =
  originalname :: string
  mimetype :: string
  buffer :: string

text \<open>
  What a handler reads of a request. \<open>authorization\<close> is the \<^verbatim>\<open>Authorization\<close> header.
  The body is one whose \<^verbatim>\<open>phone\<close> is a string (the empty string also stands for a missing
  one, both being falsy); \<^verbatim>\<open>otp\<close> is any value. \<open>req_files\<close> is \<^verbatim>\<open>req.files\<close> after
  \<^verbatim>\<open>upload.fields\<close>: absent when the request is not multipart, otherwise the first file
  under \<^verbatim>\<open>refFile\<close> and under \<^verbatim>\<open>tgtFile\<close>. \<open>req_file\<close> is \<^verbatim>\<open>req.file\<close> after
  \<^verbatim>\<open>upload.single('document')\<close>.
\<close>

record request =
  authorization :: "wire option"
  body_phone :: string
  body_otp :: js
  refText :: "string option"
  tgtText :: "string option"
  req_files :: "(upload option \<times> upload option) option"
  req_file :: "upload option"

text \<open>
  What \<^verbatim>\<open>model.generateContent\<close> followed by \<^verbatim>\<open>JSON.parse(result.response.text())\<close>
  comes to: the call throws, the text is not JSON, or a value is parsed.
\<close>

datatype model_reply = CallFails | NotJson | Parsed js

text \<open>
  One request's view of the world: \<^verbatim>\<open>Date.now()\<close> in milliseconds (read once),
  \<^verbatim>\<open>Math.random()\<close>, the model's reply, and whether the store rejects a read or a write.
\<close>

record env =
  now :: int
  random :: rat
  model_reply :: model_reply
  find_fails :: bool
  write_fails :: bool

datatype prompt = SimilarityPrompt string string | WebScanPrompt | SummaryPrompt

datatype part = InlineData string string | TextPart prompt

datatype body =
    Error string
  | Message string
  | Login string jwt
  | Json js
  | Entries "history_entry list"

record response =
  status :: nat
  body :: body

datatype effect =
    FindUser string
  | UpsertUser string
  | SaveUser nat
  | GenerateContent "part list" bool
  | CreateHistory history_entry
  | FindHistory nat

record outcome =
  response :: response
  store_after :: store
  effects :: "effect list"

definition respond :: "nat \<Rightarrow> body \<Rightarrow> store \<Rightarrow> effect list \<Rightarrow> outcome" where
  "respond code b st effs = \<lparr>response = \<lparr>status = code, body = b\<rparr>, store_after = st, effects = effs\<rparr>"

subsection \<open>Middleware\<close>

text \<open>\<^verbatim>\<open>req.header('Authorization')?.replace('Bearer ', '')\<close>; \<open>None\<close> is \<^verbatim>\<open>undefined\<close>.\<close>

definition bearer_token :: "request \<Rightarrow> wire option" where
  "bearer_token req =
     (case authorization req of
        None \<Rightarrow> None
      | Some (Plain s) \<Rightarrow> Some (Plain (js_replace ''Bearer '' [] s))
      | Some (Token pre tok) \<Rightarrow> Some (Token (js_replace ''Bearer '' [] pre) tok))"

text \<open>\<^verbatim>\<open>!token\<close>: \<^verbatim>\<open>undefined\<close> or the empty string.\<close>

definition no_token :: "wire option \<Rightarrow> bool" where
  "no_token t = (t = None \<or> t = Some (Plain []))"

text \<open>
  \<^verbatim>\<open>authMiddleware\<close>: either a response (and \<^verbatim>\<open>next\<close> is not called), or the decoded
  payload that it stores in \<^verbatim>\<open>req.user\<close> before calling \<^verbatim>\<open>next\<close>.
\<close>

definition authMiddleware :: "config \<Rightarrow> env \<Rightarrow> request \<Rightarrow> response + jwt" where
  "authMiddleware cfg ev req =
     (case bearer_token req of
        None \<Rightarrow> Inl \<lparr>status = 401, body = Error ''Access denied. No token provided.''\<rparr>
      | Some token \<Rightarrow>
          if no_token (Some token)
          then Inl \<lparr>status = 401, body = Error ''Access denied. No token provided.''\<rparr>
          else (case jwt_verify token (JWT_SECRET cfg) (now ev) of
                  Inl ex \<Rightarrow> Inl \<lparr>status = 400, body = Error ''Invalid token.''\<rparr>
                | Inr decoded \<Rightarrow> Inr decoded))"

text \<open>\<^verbatim>\<open>fileToGenerativePart\<close>; the base64 text of the buffer is kept as the buffer.\<close>

definition fileToGenerativePart :: "upload \<Rightarrow> part" where
  "fileToGenerativePart file = InlineData (buffer file) (mimetype file)"

subsection \<open>Authentication routes\<close>

text \<open>
  \<^verbatim>\<open>POST /api/auth/send-otp\<close>. The code is
  \<^verbatim>\<open>Math.floor(100000 + Math.random() * 900000).toString()\<close>, with the product and the sum
  taken exactly.
\<close>

definition generated_otp :: "runtime \<Rightarrow> env \<Rightarrow> string" where
  "generated_otp rt ev = Number_toString rt (Finite (of_int \<lfloor>100000 + random ev * 900000\<rfloor>))"

definition send_otp :: "runtime \<Rightarrow> env \<Rightarrow> store \<Rightarrow> request \<Rightarrow> outcome" where
  "send_otp rt ev st req =
     (let p = body_phone req in
      if p = [] then respond 400 (Error ''Phone number is required'') st []
      else
        let code = generated_otp rt ev;
            expires = now ev + 10 * 60000
        in if write_fails ev
           then respond 500 (Error ''Failed to generate OTP.'') st [UpsertUser p]
           else respond 200 (Message ''OTP generated successfully (Check server terminal)'')
                  (findOneAndUpdate p code expires (now ev) st) [UpsertUser p])"

text \<open>
  \<^verbatim>\<open>POST /api/auth/verify-otp\<close>. \<^verbatim>\<open>user.otp !== otp\<close> compares the stored string or
  \<^verbatim>\<open>null\<close> with the body's value; \<^verbatim>\<open>user.otpExpires < new Date()\<close> compares time values,
  a \<^verbatim>\<open>null\<close> expiry converting to 0.
\<close>

definition stored_otp :: "user \<Rightarrow> js" where
  "stored_otp u = (case otp u of None \<Rightarrow> JNull | Some s \<Rightarrow> JStr s)"

definition expired :: "user \<Rightarrow> int \<Rightarrow> bool" where
  "expired u t = ((case otpExpires u of None \<Rightarrow> 0 | Some e \<Rightarrow> e) < t)"

definition signing_secret :: "config \<Rightarrow> string" where
  "signing_secret cfg =
     (case JWT_SECRET cfg of
        None \<Rightarrow> ''fallback_secret_key''
      | Some s \<Rightarrow> if s = [] then ''fallback_secret_key'' else s)"

definition verify_otp :: "config \<Rightarrow> env \<Rightarrow> store \<Rightarrow> request \<Rightarrow> outcome" where
  "verify_otp cfg ev st req =
     (let p = body_phone req in
      if find_fails ev then respond 500 (Error ''Verification failed'') st [FindUser p]
      else
        (case findOne p st of
           None \<Rightarrow> respond 404 (Error ''User not found'') st [FindUser p]
         | Some usr \<Rightarrow>
             if \<not> strict_eq (stored_otp usr) (body_otp req)
             then respond 400 (Error ''Invalid OTP'') st [FindUser p]
             else if expired usr (now ev)
             then respond 400 (Error ''OTP expired'') st [FindUser p]
             else if write_fails ev
             then respond 500 (Error ''Verification failed'') st [FindUser p, SaveUser (uid usr)]
             else respond 200
                    (Login ''Login successful''
                       (jwt_sign (uid usr) (phone usr) (signing_secret cfg) (now ev)))
                    (save_cleared usr st) [FindUser p, SaveUser (uid usr)]))"

subsection \<open>Analysis routes\<close>

text \<open>
  Each handler body runs inside \<^verbatim>\<open>try\<close>; the argument of \<^verbatim>\<open>History.create\<close> is built
  field by field in the order of the object literal, and any \<^verbatim>\<open>throw\<close> on the way leaves
  the call unmade. \<open>usr\<close> is \<^verbatim>\<open>req.user\<close>.
\<close>

definition or_default :: "string option \<Rightarrow> string \<Rightarrow> string" where
  "or_default v d = (case v of None \<Rightarrow> d | Some s \<Rightarrow> if s = [] then d else s)"

definition file_name :: "upload option \<Rightarrow> string \<Rightarrow> string" where
  "file_name f d = (case f of None \<Rightarrow> d | Some u \<Rightarrow> originalname u)"

definition file_parts :: "upload option \<Rightarrow> part list" where
  "file_parts f = (case f of None \<Rightarrow> [] | Some u \<Rightarrow> [fileToGenerativePart u])"

definition arrow :: string where
  "arrow = [CHR 0x20, CHR 0xE2, CHR 0x86, CHR 0x94, CHR 0x20]"

text \<open>
  \<^verbatim>\<open>analysis.similarity_score >= 80 ? 'High' : analysis.similarity_score >= 50 ? 'Moderate' : 'Low'\<close>
\<close>

definition similarity_verdict :: "runtime \<Rightarrow> js \<Rightarrow> exn + string" where
  "similarity_verdict rt sc =
     bind_e (js_ge rt sc 80) (\<lambda>high.
       if high then Inr ''High''
       else bind_e (js_ge rt sc 50) (\<lambda>moderate.
         Inr (if moderate then ''Moderate'' else ''Low'')))"

definition similarity_entry ::
  "runtime \<Rightarrow> env \<Rightarrow> jwt \<Rightarrow> upload option \<times> upload option \<Rightarrow> js \<Rightarrow> exn + history_entry" where
  "similarity_entry rt ev usr files analysis =
     (let docNames = file_name (fst files) ''Text'' @ '' -> '' @ file_name (snd files) ''Text'' in
      bind_e (get_prop analysis ''similarity_score'') (\<lambda>sc.
      bind_e (call_toString rt sc) (\<lambda>score_text.
      bind_e (get_prop analysis ''ref_lang'') (\<lambda>ref_lang.
      bind_e (ToString rt ref_lang) (\<lambda>ref_text.
      bind_e (get_prop analysis ''tgt_lang'') (\<lambda>tgt_lang.
      bind_e (ToString rt tgt_lang) (\<lambda>tgt_text.
      bind_e (similarity_verdict rt sc) (\<lambda>v.
        Inr \<lparr>userId = sub_id usr, kind = ''Similarity Check'', docs = docNames,
             score = score_text, details = ref_text @ arrow @ tgt_text,
             verdict = v, loggedAt = now ev\<rparr>))))))))"

text \<open>The tail shared by the three handlers: \<^verbatim>\<open>await History.create(e); res.json(v)\<close>.\<close>

definition create_and_reply ::
  "env \<Rightarrow> store \<Rightarrow> effect list \<Rightarrow> string \<Rightarrow> js \<Rightarrow> history_entry \<Rightarrow> outcome" where
  "create_and_reply ev st effs failure v e =
     (if write_fails ev then respond 500 (Error failure) st (effs @ [CreateHistory e])
      else (case History_create e st of
              Inl ex \<Rightarrow> respond 500 (Error failure) st (effs @ [CreateHistory e])
            | Inr st' \<Rightarrow> respond 200 (Json v) st' (effs @ [CreateHistory e])))"

text \<open>\<^verbatim>\<open>POST /api/analyze\<close>, after \<^verbatim>\<open>authMiddleware\<close> and \<^verbatim>\<open>upload.fields\<close>.\<close>

definition analyze :: "runtime \<Rightarrow> env \<Rightarrow> store \<Rightarrow> jwt \<Rightarrow> request \<Rightarrow> outcome" where
  "analyze rt ev st usr req =
     (let failure = ''Similarity analysis failed'' in
      case req_files req of
        None \<Rightarrow> respond 500 (Error failure) st []
      | Some files \<Rightarrow>
          let parts = file_parts (fst files) @ file_parts (snd files) @
                [TextPart (SimilarityPrompt
                   (or_default (refText req) ''See attached reference file'')
                   (or_default (tgtText req) ''See attached target file''))];
              effs = [GenerateContent parts False]
          in (case model_reply ev of
                CallFails \<Rightarrow> respond 500 (Error failure) st effs
              | NotJson \<Rightarrow> respond 500 (Error failure) st effs
              | Parsed analysis \<Rightarrow>
                  (case similarity_entry rt ev usr files analysis of
                     Inl ex \<Rightarrow> respond 500 (Error failure) st effs
                   | Inr e \<Rightarrow> create_and_reply ev st effs failure analysis e)))"

text \<open>
  \<^verbatim>\<open>scanResult.sources[0]?.score\<close>, then
  \<^verbatim>\<open>scanResult.sources[0]?.score?.toString() || '0'\<close>.
\<close>

definition first_source_score :: "js \<Rightarrow> exn + js" where
  "first_source_score scanResult =
     bind_e (get_prop scanResult ''sources'') (\<lambda>sources.
     bind_e (get_index0 sources) (\<lambda>first.
       Inr (opt_prop first ''score'')))"

definition score_or_zero :: "runtime \<Rightarrow> js \<Rightarrow> exn + string" where
  "score_or_zero rt sc =
     (if sc = JUndefined \<or> sc = JNull then Inr ''0''
      else bind_e (call_toString rt sc) (\<lambda>s. Inr (if s = [] then ''0'' else s)))"

definition webscan_entry :: "runtime \<Rightarrow> env \<Rightarrow> jwt \<Rightarrow> upload option \<Rightarrow> js \<Rightarrow> exn + history_entry" where
  "webscan_entry rt ev usr file scanResult =
     bind_e (first_source_score scanResult) (\<lambda>sc.
     bind_e (score_or_zero rt sc) (\<lambda>score_text.
     bind_e (get_prop scanResult ''sources'') (\<lambda>sources.
     bind_e (get_length sources) (\<lambda>n.
     bind_e (ToString rt n) (\<lambda>count_text.
     bind_e (js_ge rt sc 80) (\<lambda>high.
       Inr \<lparr>userId = sub_id usr, kind = ''Web Scan'', docs = file_name file ''Document'',
            score = score_text, details = count_text @ '' sources found'',
            verdict = (if high then ''High Risk'' else ''Pass''), loggedAt = now ev\<rparr>))))))"

text \<open>\<^verbatim>\<open>POST /api/webscan\<close>, after \<^verbatim>\<open>authMiddleware\<close> and \<^verbatim>\<open>upload.single\<close>.\<close>

definition webscan :: "runtime \<Rightarrow> env \<Rightarrow> store \<Rightarrow> jwt \<Rightarrow> request \<Rightarrow> outcome" where
  "webscan rt ev st usr req =
     (let failure = ''Web scan failed'';
          parts = file_parts (req_file req) @ [TextPart WebScanPrompt];
          effs = [GenerateContent parts True]
      in (case model_reply ev of
            CallFails \<Rightarrow> respond 500 (Error failure) st effs
          | NotJson \<Rightarrow> respond 500 (Error failure) st effs
          | Parsed scanResult \<Rightarrow>
              (case webscan_entry rt ev usr (req_file req) scanResult of
                 Inl ex \<Rightarrow> respond 500 (Error failure) st effs
               | Inr e \<Rightarrow> create_and_reply ev st effs failure scanResult e)))"

definition summary_entry :: "env \<Rightarrow> jwt \<Rightarrow> upload option \<Rightarrow> js \<Rightarrow> exn + history_entry" where
  "summary_entry ev usr file summary =
     Inr \<lparr>userId = sub_id usr, kind = ''AI Summary'', docs = file_name file ''Document'',
          score = ''-'', details = ''Summarized'', verdict = ''Done'', loggedAt = now ev\<rparr>"

text \<open>\<^verbatim>\<open>POST /api/summarize\<close>, after \<^verbatim>\<open>authMiddleware\<close> and \<^verbatim>\<open>upload.single\<close>.\<close>

definition summarize :: "env \<Rightarrow> store \<Rightarrow> jwt \<Rightarrow> request \<Rightarrow> outcome" where
  "summarize ev st usr req =
     (let failure = ''Summarization failed'';
          parts = file_parts (req_file req) @ [TextPart SummaryPrompt];
          effs = [GenerateContent parts False]
      in (case model_reply ev of
            CallFails \<Rightarrow> respond 500 (Error failure) st effs
          | NotJson \<Rightarrow> respond 500 (Error failure) st effs
          | Parsed summary \<Rightarrow>
              (case summary_entry ev usr (req_file req) summary of
                 Inl ex \<Rightarrow> respond 500 (Error failure) st effs
               | Inr e \<Rightarrow> create_and_reply ev st effs failure summary e)))"

text \<open>\<^verbatim>\<open>GET /api/history\<close>, after \<^verbatim>\<open>authMiddleware\<close>.\<close>

definition get_history :: "env \<Rightarrow> store \<Rightarrow> jwt \<Rightarrow> outcome" where
  "get_history ev st usr =
     (if find_fails ev
      then respond 500 (Error ''Failed to fetch history'') st [FindHistory (sub_id usr)]
      else respond 200 (Entries (History_find (sub_id usr) st)) st [FindHistory (sub_id usr)])"

subsection \<open>The routes\<close>

datatype route = SendOtp | VerifyOtp | Analyze | WebScan | Summarize | GetHistory

text \<open>
  A route with \<^verbatim>\<open>authMiddleware\<close> in front: the handler runs only when the middleware
  called \<^verbatim>\<open>next\<close>.
\<close>

definition guarded :: "config \<Rightarrow> env \<Rightarrow> store \<Rightarrow> request \<Rightarrow> (jwt \<Rightarrow> outcome) \<Rightarrow> outcome" where
  "guarded cfg ev st req handler =
     (case authMiddleware cfg ev req of
        Inl rejected \<Rightarrow> \<lparr>response = rejected, store_after = st, effects = []\<rparr>
      | Inr decoded \<Rightarrow> handler decoded)"

definition handle :: "runtime \<Rightarrow> config \<Rightarrow> env \<Rightarrow> store \<Rightarrow> route \<Rightarrow> request \<Rightarrow> outcome" where
  "handle rt cfg ev st r req =
     (case r of
        SendOtp \<Rightarrow> send_otp rt ev st req
      | VerifyOtp \<Rightarrow> verify_otp cfg ev st req
      | Analyze \<Rightarrow> guarded cfg ev st req (\<lambda>usr. analyze rt ev st usr req)
      | WebScan \<Rightarrow> guarded cfg ev st req (\<lambda>usr. webscan rt ev st usr req)
      | Summarize \<Rightarrow> guarded cfg ev st req (\<lambda>usr. summarize ev st usr req)
      | GetHistory \<Rightarrow> guarded cfg ev st req (\<lambda>usr. get_history ev st usr))"

subsection \<open>Runs of the server\<close>

text \<open>
  The server starts on an empty store and answers one request after another. Next to the
  store a run keeps the tokens the server has handed out so far. Signatures cannot be
  forged: a token in a request whose signature verifies under \<^verbatim>\<open>JWT_SECRET\<close> is one of
  those tokens.
\<close>

definition carried_token :: "request \<Rightarrow> jwt option" where
  "carried_token req =
     (case authorization req of
        None \<Rightarrow> None
      | Some (Plain s) \<Rightarrow> None
      | Some (Token pre tok) \<Rightarrow> Some tok)"

definition issued :: "response \<Rightarrow> jwt list" where
  "issued res = (case body res of Login msg tok \<Rightarrow> [tok] | _ \<Rightarrow> [])"

definition unforged :: "config \<Rightarrow> jwt list \<Rightarrow> request \<Rightarrow> bool" where
  "unforged cfg toks req =
     (case carried_token req of
        None \<Rightarrow> True
      | Some tok \<Rightarrow> JWT_SECRET cfg = Some (signed_with tok) \<longrightarrow> tok \<in> set toks)"

inductive reachable :: "runtime \<Rightarrow> config \<Rightarrow> store \<Rightarrow> jwt list \<Rightarrow> bool"
  for rt :: runtime and cfg :: config where
  start: "reachable rt cfg empty_store []"
| request:
    "reachable rt cfg st toks \<Longrightarrow> unforged cfg toks req \<Longrightarrow>
     reachable rt cfg (store_after (handle rt cfg ev st r req))
       (toks @ issued (response (handle rt cfg ev st r req)))"

text \<open>The users a history entry or a token can refer to.\<close>

definition known_ids :: "store \<Rightarrow> nat set" where
  "known_ids st = uid ` set (users st)"

section \<open>Auxiliary facts\<close>

subsection \<open>Errors and entries\<close>

lemma bind_e_Inr_iff: "bind_e m f = Inr y \<longleftrightarrow> (\<exists>x. m = Inr x \<and> f x = Inr y)"
  by (cases m) (simp_all add: bind_e_def)

lemma bind_e_simps: "bind_e (Inl e) f = Inl e" "bind_e (Inr x) f = f x"
  by (simp_all add: bind_e_def)

lemma similarity_verdict_number:
  "similarity_verdict rt (JNum (Finite r)) =
     Inr (if 80 \<le> r then ''High'' else if 50 \<le> r then ''Moderate'' else ''Low'')"
  by (simp add: similarity_verdict_def js_ge_def ToNumber_def bind_e_simps)

lemma similarity_entry_fields:
  assumes "similarity_entry rt ev usr files analysis = Inr e"
  shows "\<exists>sc. get_prop analysis ''similarity_score'' = Inr sc
             \<and> call_toString rt sc = Inr (score e)
             \<and> similarity_verdict rt sc = Inr (verdict e)
             \<and> userId e = sub_id usr \<and> kind e = ''Similarity Check'' \<and> loggedAt e = now ev
             \<and> docs e = file_name (fst files) ''Text'' @ '' -> '' @ file_name (snd files) ''Text''"
  using assms unfolding similarity_entry_def Let_def bind_e_Inr_iff by auto

lemma create_and_reply_cases:
  "(store_after (create_and_reply ev st effs failure v e) = st
      \<and> response (create_and_reply ev st effs failure v e) = \<lparr>status = 500, body = Error failure\<rparr>
      \<and> (write_fails ev \<or> kind e = [] \<or> docs e = [] \<or> score e = []))
   \<or> (store_after (create_and_reply ev st effs failure v e) = st\<lparr>history := history st @ [e]\<rparr>
      \<and> response (create_and_reply ev st effs failure v e) = \<lparr>status = 200, body = Json v\<rparr>
      \<and> \<not> write_fails ev \<and> kind e \<noteq> [] \<and> docs e \<noteq> [] \<and> score e \<noteq> [])"
  by (simp add: create_and_reply_def History_create_def respond_def)

lemma analyze_cases:
  "(store_after (analyze rt ev st usr req) = st
      \<and> response (analyze rt ev st usr req) = \<lparr>status = 500, body = Error ''Similarity analysis failed''\<rparr>)
   \<or> (\<exists>files analysis e. req_files req = Some files \<and> model_reply ev = Parsed analysis
        \<and> similarity_entry rt ev usr files analysis = Inr e
        \<and> store_after (analyze rt ev st usr req) = st\<lparr>history := history st @ [e]\<rparr>
        \<and> response (analyze rt ev st usr req) = \<lparr>status = 200, body = Json analysis\<rparr>)"
proof (cases "req_files req")
  case None
  then show ?thesis by (simp add: analyze_def respond_def)
next
  case (Some files)
  show ?thesis
  proof (cases "model_reply ev")
    case (Parsed analysis)
    show ?thesis
    proof (cases "similarity_entry rt ev usr files analysis")
      case (Inl ex)
      with Some Parsed show ?thesis by (simp add: analyze_def respond_def)
    next
      case (Inr e)
      with Some Parsed create_and_reply_cases [of ev st _ "''Similarity analysis failed''" analysis e]
      show ?thesis by (auto simp add: analyze_def Let_def)
    qed
  qed (use Some in \<open>simp_all add: analyze_def respond_def\<close>)
qed

lemma webscan_cases:
  "(store_after (webscan rt ev st usr req) = st
      \<and> response (webscan rt ev st usr req) = \<lparr>status = 500, body = Error ''Web scan failed''\<rparr>)
   \<or> (\<exists>scanResult e. model_reply ev = Parsed scanResult
        \<and> webscan_entry rt ev usr (req_file req) scanResult = Inr e
        \<and> store_after (webscan rt ev st usr req) = st\<lparr>history := history st @ [e]\<rparr>
        \<and> response (webscan rt ev st usr req) = \<lparr>status = 200, body = Json scanResult\<rparr>)"
proof (cases "model_reply ev")
  case (Parsed scanResult)
  show ?thesis
  proof (cases "webscan_entry rt ev usr (req_file req) scanResult")
    case (Inl ex)
    with Parsed show ?thesis by (simp add: webscan_def respond_def)
  next
    case (Inr e)
    with Parsed create_and_reply_cases [of ev st _ "''Web scan failed''" scanResult e]
    show ?thesis by (auto simp add: webscan_def Let_def)
  qed
qed (simp_all add: webscan_def respond_def)

lemma webscan_written:
  assumes "model_reply ev = Parsed scanResult"
      and "webscan_entry rt ev usr (req_file req) scanResult = Inr e"
      and "\<not> write_fails ev" and "docs e \<noteq> []" and "score e \<noteq> []" and "kind e \<noteq> []"
  shows "store_after (webscan rt ev st usr req) = st\<lparr>history := history st @ [e]\<rparr>"
  using assms by (simp add: webscan_def Let_def create_and_reply_def History_create_def respond_def)

lemma webscan_entry_no_source:
  assumes "get_prop scanResult ''sources'' = Inr (JArr [])"
  shows "webscan_entry rt ev usr file scanResult =
     Inr \<lparr>userId = sub_id usr, kind = ''Web Scan'', docs = file_name file ''Document'',
          score = ''0'', details = ''0 sources found'', verdict = ''Pass'', loggedAt = now ev\<rparr>"
  using assms
  by (simp add: webscan_entry_def first_source_score_def score_or_zero_def bind_e_simps
      opt_prop_def js_ge_def ToNumber_def Number_toString_def is_safe_integer_def
      int_toString_def digits.simps digit_char_def)

lemma webscan_entry_number:
  assumes "get_prop scanResult ''sources'' = Inr (JArr (src # rest))"
      and "get_prop src ''score'' = Inr (JNum (Finite r))"
  shows "webscan_entry rt ev usr file scanResult =
     Inr \<lparr>userId = sub_id usr, kind = ''Web Scan'', docs = file_name file ''Document'',
          score = (if Number_toString rt (Finite r) = [] then ''0'' else Number_toString rt (Finite r)),
          details = Number_toString rt (Finite (of_nat (Suc (length rest)))) @ '' sources found'',
          verdict = (if 80 \<le> r then ''High Risk'' else ''Pass''), loggedAt = now ev\<rparr>"
  using assms
  by (simp add: webscan_entry_def first_source_score_def score_or_zero_def bind_e_simps
      opt_prop_def js_ge_def ToNumber_def call_toString_def)

lemma webscan_entry_verdict:
  assumes "webscan_entry rt ev usr file scanResult = Inr e"
  shows "kind e = ''Web Scan'' \<and> (verdict e = ''High Risk'' \<or> verdict e = ''Pass'')"
  using assms unfolding webscan_entry_def bind_e_Inr_iff by (auto split: if_splits)

lemma summarize_cases:
  "(store_after (summarize ev st usr req) = st
      \<and> response (summarize ev st usr req) = \<lparr>status = 500, body = Error ''Summarization failed''\<rparr>)
   \<or> (\<exists>summary e. model_reply ev = Parsed summary
        \<and> summary_entry ev usr (req_file req) summary = Inr e
        \<and> store_after (summarize ev st usr req) = st\<lparr>history := history st @ [e]\<rparr>
        \<and> response (summarize ev st usr req) = \<lparr>status = 200, body = Json summary\<rparr>)"
proof (cases "model_reply ev")
  case (Parsed summary)
  let ?e = "\<lparr>userId = sub_id usr, kind = ''AI Summary'', docs = file_name (req_file req) ''Document'',
          score = ''-'', details = ''Summarized'', verdict = ''Done'', loggedAt = now ev\<rparr>"
  from Parsed create_and_reply_cases [of ev st _ "''Summarization failed''" summary ?e]
  show ?thesis by (auto simp add: summarize_def summary_entry_def Let_def)
qed (simp_all add: summarize_def respond_def)

subsection \<open>The middleware\<close>

lemma authMiddleware_rejects:
  "no_token (bearer_token req) \<Longrightarrow>
     authMiddleware cfg ev req = Inl \<lparr>status = 401, body = Error ''Access denied. No token provided.''\<rparr>"
  "\<not> no_token (bearer_token req) \<Longrightarrow> bearer_token req = Some token \<Longrightarrow>
     jwt_verify token (JWT_SECRET cfg) (now ev) = Inl ex \<Longrightarrow>
     authMiddleware cfg ev req = Inl \<lparr>status = 400, body = Error ''Invalid token.''\<rparr>"
  by (auto simp add: authMiddleware_def no_token_def split: option.splits)

lemma guarded_rejected:
  "authMiddleware cfg ev req = Inl res \<Longrightarrow>
     guarded cfg ev st req handler = \<lparr>response = res, store_after = st, effects = []\<rparr>"
  by (simp add: guarded_def)

lemma handle_rejected:
  assumes "r \<in> {Analyze, WebScan, Summarize, GetHistory}"
      and "authMiddleware cfg ev req = Inl res"
  shows "handle rt cfg ev st r req = \<lparr>response = res, store_after = st, effects = []\<rparr>"
  using assms by (auto simp add: handle_def guarded_rejected)

lemma seconds_before: "(e \<le> t div 1000) = (1000 * e \<le> (t::int))"
proof -
  define q r where "q = t div 1000" and "r = t mod 1000"
  have "t = 1000 * q + r" and "0 \<le> r" and "r < 1000"
    by (simp_all add: q_def r_def)
  then show ?thesis unfolding q_def [symmetric] by linarith
qed

lemma bearer_header:
  "authorization req = Some (Token ''Bearer '' tok) \<Longrightarrow> bearer_token req = Some (Token [] tok)"
  by (simp add: bearer_token_def)

lemma authMiddleware_bearer:
  assumes "authorization req = Some (Token ''Bearer '' tok)"
  shows "authMiddleware cfg ev req =
     (case jwt_verify (Token [] tok) (JWT_SECRET cfg) (now ev) of
        Inl ex \<Rightarrow> Inl \<lparr>status = 400, body = Error ''Invalid token.''\<rparr>
      | Inr decoded \<Rightarrow> Inr decoded)"
  by (simp add: authMiddleware_def bearer_header [OF assms] no_token_def)

lemma authMiddleware_accepts:
  assumes "authMiddleware cfg ev req = Inr decoded"
  shows "carried_token req = Some decoded \<and> JWT_SECRET cfg = Some (signed_with decoded)"
  using assms
  by (auto simp add: authMiddleware_def bearer_token_def carried_token_def jwt_verify_def
      split: option.splits wire.splits if_splits sum.splits)

lemma accepted_is_issued:
  assumes "authMiddleware cfg ev req = Inr decoded" and "unforged cfg toks req"
  shows "decoded \<in> set toks"
  using authMiddleware_accepts [OF assms(1)] assms(2) by (simp add: unforged_def)

subsection \<open>The user collection\<close>

lemma find_update_first:
  assumes "\<And>x. P x \<Longrightarrow> P (f x)"
  shows "find P (update_first P f xs) = map_option f (find P xs)"
  using assms by (induction xs) auto

lemma find_snoc:
  "find P (xs @ [x]) = (case find P xs of None \<Rightarrow> (if P x then Some x else None) | Some y \<Rightarrow> Some y)"
  by (induction xs) auto

lemma map_uid_update_first:
  assumes "\<And>x. uid (f x) = uid x"
  shows "map uid (update_first P f xs) = map uid xs"
  using assms by (induction xs) auto

lemma fold_max_bounds:
  "m \<le> fold (\<lambda>u m. max m (Suc (uid u))) us m
   \<and> (\<forall>u \<in> set us. uid u < fold (\<lambda>u m. max m (Suc (uid u))) us m)"
proof (induction us arbitrary: m)
  case Nil
  show ?case by simp
next
  case (Cons a us)
  from Cons [of "max m (Suc (uid a))"] show ?case by auto
qed

lemma fresh_id_new: "fresh_id us \<notin> uid ` set us"
  using fold_max_bounds [of 0 us] by (auto simp add: fresh_id_def)

lemma findOne_after_upsert:
  "findOne p (findOneAndUpdate p code e t st) =
     Some (case findOne p st of
             None \<Rightarrow> \<lparr>uid = fresh_id (users st), phone = p, otp = Some code,
                       otpExpires = Some e, createdAt = t\<rparr>
           | Some u \<Rightarrow> u\<lparr>otp := Some code, otpExpires := Some e\<rparr>)"
  by (cases "find (\<lambda>u. phone u = p) (users st)")
     (simp_all add: findOne_def findOneAndUpdate_def find_snoc find_update_first)

lemma distinct_after_upsert:
  assumes "distinct (map uid (users st))"
  shows "distinct (map uid (users (findOneAndUpdate p code e t st)))"
  using assms fresh_id_new [of "users st"]
  by (cases "findOne p st") (simp_all add: findOneAndUpdate_def map_uid_update_first)

lemma find_cleared:
  assumes "distinct (map uid xs)" and "find (\<lambda>x. phone x = p) xs = Some u"
  shows "find (\<lambda>x. phone x = p)
           (update_first (\<lambda>x. uid x = uid u) (\<lambda>x. x\<lparr>otp := None, otpExpires := None\<rparr>) xs)
         = Some (u\<lparr>otp := None, otpExpires := None\<rparr>)"
  using assms
proof (induction xs)
  case Nil
  then show ?case by simp
next
  case (Cons a xs)
  show ?case
  proof (cases "phone a = p")
    case True
    with Cons.prems show ?thesis by simp
  next
    case False
    with Cons.prems have later: "find (\<lambda>x. phone x = p) xs = Some u" by simp
    then have "u \<in> set xs" by (auto simp add: find_Some_iff)
    with Cons.prems have "uid a \<noteq> uid u" by auto
    with False Cons.IH later Cons.prems show ?thesis by simp
  qed
qed

lemma findOne_after_save:
  assumes "distinct (map uid (users st))" and "findOne p st = Some u"
  shows "findOne p (save_cleared u st) = Some (u\<lparr>otp := None, otpExpires := None\<rparr>)"
  using find_cleared [of "users st" p u] assms by (simp add: findOne_def save_cleared_def)

lemma known_ids_upsert: "known_ids st \<subseteq> known_ids (findOneAndUpdate p code e t st)"
proof (cases "findOne p st")
  case None
  then show ?thesis by (auto simp add: known_ids_def findOneAndUpdate_def)
next
  case (Some u)
  have "map uid (update_first (\<lambda>u. phone u = p)
      (\<lambda>u. u\<lparr>otp := Some code, otpExpires := Some e\<rparr>) (users st)) = map uid (users st)"
    by (rule map_uid_update_first) simp
  then have "uid ` set (update_first (\<lambda>u. phone u = p)
      (\<lambda>u. u\<lparr>otp := Some code, otpExpires := Some e\<rparr>) (users st)) = uid ` set (users st)"
    by (metis set_map)
  with Some show ?thesis by (simp add: known_ids_def findOneAndUpdate_def)
qed

lemma known_ids_save: "known_ids (save_cleared u st) = known_ids st"
proof -
  have "map uid (update_first (\<lambda>x. uid x = uid u)
      (\<lambda>x. x\<lparr>otp := None, otpExpires := None\<rparr>) (users st)) = map uid (users st)"
    by (rule map_uid_update_first) simp
  then have "uid ` set (update_first (\<lambda>x. uid x = uid u)
      (\<lambda>x. x\<lparr>otp := None, otpExpires := None\<rparr>) (users st)) = uid ` set (users st)"
    by (metis set_map)
  then show ?thesis by (simp add: known_ids_def save_cleared_def)
qed

lemma findOne_known: "findOne p st = Some u \<Longrightarrow> uid u \<in> known_ids st"
  by (auto simp add: findOne_def known_ids_def find_Some_iff)

subsection \<open>Verification of a challenge\<close>

lemma verify_otp_matching:
  assumes "\<not> find_fails ev" and "findOne (body_phone req) st = Some u"
      and "otp u = Some code" and "body_otp req = JStr code"
  shows "verify_otp cfg ev st req =
     (if expired u (now ev)
      then respond 400 (Error ''OTP expired'') st [FindUser (body_phone req)]
      else if write_fails ev
      then respond 500 (Error ''Verification failed'') st
             [FindUser (body_phone req), SaveUser (uid u)]
      else respond 200
             (Login ''Login successful'' (jwt_sign (uid u) (phone u) (signing_secret cfg) (now ev)))
             (save_cleared u st) [FindUser (body_phone req), SaveUser (uid u)])"
  using assms by (simp add: verify_otp_def stored_otp_def)

lemma verify_otp_consumed:
  assumes "findOne (body_phone req) st = Some u" and "otp u = None" and "otpExpires u = None"
  shows "verify_otp cfg ev st req =
     (if find_fails ev
      then respond 500 (Error ''Verification failed'') st [FindUser (body_phone req)]
      else if body_otp req \<noteq> JNull
      then respond 400 (Error ''Invalid OTP'') st [FindUser (body_phone req)]
      else if 0 < now ev
      then respond 400 (Error ''OTP expired'') st [FindUser (body_phone req)]
      else if write_fails ev
      then respond 500 (Error ''Verification failed'') st
             [FindUser (body_phone req), SaveUser (uid u)]
      else respond 200
             (Login ''Login successful'' (jwt_sign (uid u) (phone u) (signing_secret cfg) (now ev)))
             (save_cleared u st) [FindUser (body_phone req), SaveUser (uid u)])"
  using assms by (cases "body_otp req") (simp_all add: verify_otp_def stored_otp_def expired_def)

lemma verify_otp_login:
  assumes "response (verify_otp cfg ev st req) = \<lparr>status = 200, body = Login msg tok\<rparr>"
  shows "\<exists>u. findOne (body_phone req) st = Some u
           \<and> tok = jwt_sign (uid u) (phone u) (signing_secret cfg) (now ev)
           \<and> store_after (verify_otp cfg ev st req) = save_cleared u st"
  using assms
  by (auto simp add: verify_otp_def Let_def respond_def split: if_splits option.splits)

subsection \<open>Effects of the routes\<close>

lemma send_otp_effect:
  "known_ids st \<subseteq> known_ids (store_after (send_otp rt ev st req))
   \<and> history (store_after (send_otp rt ev st req)) = history st
   \<and> issued (response (send_otp rt ev st req)) = []"
proof -
  have "history (findOneAndUpdate p code e t st) = history st" for p code e t
    by (simp add: findOneAndUpdate_def split: option.splits)
  with known_ids_upsert show ?thesis
    by (simp add: send_otp_def Let_def respond_def issued_def)
qed

lemma verify_otp_effect:
  "known_ids (store_after (verify_otp cfg ev st req)) = known_ids st
   \<and> history (store_after (verify_otp cfg ev st req)) = history st
   \<and> (\<forall>tok \<in> set (issued (response (verify_otp cfg ev st req))). sub_id tok \<in> known_ids st)"
proof (cases "findOne (body_phone req) st")
  case None
  then show ?thesis by (simp add: verify_otp_def Let_def respond_def issued_def)
next
  case (Some u)
  have "history (save_cleared u st) = history st" by (simp add: save_cleared_def)
  with Some known_ids_save [of u st] findOne_known [OF Some] show ?thesis
    by (simp add: verify_otp_def Let_def respond_def issued_def jwt_sign_def)
qed

lemma webscan_entry_owner:
  "webscan_entry rt ev usr file scanResult = Inr e \<Longrightarrow> userId e = sub_id usr"
  unfolding webscan_entry_def bind_e_Inr_iff by auto

lemma analyze_effect:
  "users (store_after (analyze rt ev st usr req)) = users st
   \<and> issued (response (analyze rt ev st usr req)) = []
   \<and> (history (store_after (analyze rt ev st usr req)) = history st
      \<or> (\<exists>e. history (store_after (analyze rt ev st usr req)) = history st @ [e]
            \<and> userId e = sub_id usr))"
  using analyze_cases [of rt ev st usr req] similarity_entry_fields [of rt ev usr _ _ _]
  by (elim disjE exE conjE) (auto simp add: issued_def)

lemma webscan_effect:
  "users (store_after (webscan rt ev st usr req)) = users st
   \<and> issued (response (webscan rt ev st usr req)) = []
   \<and> (history (store_after (webscan rt ev st usr req)) = history st
      \<or> (\<exists>e. history (store_after (webscan rt ev st usr req)) = history st @ [e]
            \<and> userId e = sub_id usr))"
  using webscan_cases [of rt ev st usr req] webscan_entry_owner [of rt ev usr "req_file req"]
  by (elim disjE exE conjE) (auto simp add: issued_def)

lemma summarize_effect:
  "users (store_after (summarize ev st usr req)) = users st
   \<and> issued (response (summarize ev st usr req)) = []
   \<and> (history (store_after (summarize ev st usr req)) = history st
      \<or> (\<exists>e. history (store_after (summarize ev st usr req)) = history st @ [e]
            \<and> userId e = sub_id usr))"
  using summarize_cases [of ev st usr req]
  by (elim disjE exE conjE) (auto simp add: issued_def summary_entry_def)

lemma get_history_effect:
  "store_after (get_history ev st usr) = st \<and> issued (response (get_history ev st usr)) = []"
  by (simp add: get_history_def respond_def issued_def)

text \<open>What one request can do to the store, for a request that carries no forged token.\<close>

lemma handle_effect:
  assumes "unforged cfg toks req"
  shows "known_ids st \<subseteq> known_ids (store_after (handle rt cfg ev st r req))
       \<and> (\<forall>tok \<in> set (issued (response (handle rt cfg ev st r req))). sub_id tok \<in> known_ids st)
       \<and> (history (store_after (handle rt cfg ev st r req)) = history st
          \<or> (\<exists>e tok. history (store_after (handle rt cfg ev st r req)) = history st @ [e]
                \<and> r \<in> {Analyze, WebScan, Summarize} \<and> tok \<in> set toks \<and> userId e = sub_id tok))"
proof (cases r)
  case SendOtp
  with send_otp_effect [of st rt ev req] show ?thesis by (simp add: handle_def)
next
  case VerifyOtp
  with verify_otp_effect [of cfg ev st req] show ?thesis by (simp add: handle_def)
next
  case Analyze
  show ?thesis
  proof (cases "authMiddleware cfg ev req")
    case (Inl res)
    with Analyze authMiddleware_def [of cfg ev req] show ?thesis
      by (auto simp add: handle_def guarded_def issued_def split: option.splits if_splits sum.splits)
  next
    case (Inr decoded)
    with Analyze analyze_effect [of rt ev st decoded req] accepted_is_issued [OF Inr assms]
    show ?thesis by (auto simp add: handle_def guarded_def known_ids_def)
  qed
next
  case WebScan
  show ?thesis
  proof (cases "authMiddleware cfg ev req")
    case (Inl res)
    with WebScan authMiddleware_def [of cfg ev req] show ?thesis
      by (auto simp add: handle_def guarded_def issued_def split: option.splits if_splits sum.splits)
  next
    case (Inr decoded)
    with WebScan webscan_effect [of rt ev st decoded req] accepted_is_issued [OF Inr assms]
    show ?thesis by (auto simp add: handle_def guarded_def known_ids_def)
  qed
next
  case Summarize
  show ?thesis
  proof (cases "authMiddleware cfg ev req")
    case (Inl res)
    with Summarize authMiddleware_def [of cfg ev req] show ?thesis
      by (auto simp add: handle_def guarded_def issued_def split: option.splits if_splits sum.splits)
  next
    case (Inr decoded)
    with Summarize summarize_effect [of ev st decoded req] accepted_is_issued [OF Inr assms]
    show ?thesis by (auto simp add: handle_def guarded_def known_ids_def)
  qed
next
  case GetHistory
  show ?thesis
  proof (cases "authMiddleware cfg ev req")
    case (Inl res)
    with GetHistory authMiddleware_def [of cfg ev req] show ?thesis
      by (auto simp add: handle_def guarded_def issued_def split: option.splits if_splits sum.splits)
  next
    case (Inr decoded)
    with GetHistory get_history_effect [of ev st decoded]
    show ?thesis by (auto simp add: handle_def guarded_def)
  qed
qed

lemma reachable_invariant:
  assumes "reachable rt cfg st toks"
  shows "(\<forall>tok \<in> set toks. sub_id tok \<in> known_ids st)
       \<and> (\<forall>e \<in> set (history st). userId e \<in> known_ids st)"
  using assms
proof (induction rule: reachable.induct)
  case start
  show ?case by (simp add: empty_store_def)
next
  case (request st toks req ev r)
  from handle_effect [OF request.hyps(2), of st rt ev r] request.IH
  show ?case by (elim conjE disjE exE) (force simp add: subset_iff)+
qed

text \<open>
  The hypothesis of distinct ids made for the consumption of a challenge holds in every
  run: an inserted user gets a fresh id and no route changes an id.
\<close>

lemma handle_keeps_ids_distinct:
  assumes "distinct (map uid (users st))"
  shows "distinct (map uid (users (store_after (handle rt cfg ev st r req))))"
proof (cases r)
  case SendOtp
  with assms distinct_after_upsert [OF assms] show ?thesis
    by (simp add: handle_def send_otp_def Let_def respond_def)
next
  case VerifyOtp
  have "map uid (users (save_cleared u st)) = map uid (users st)" for u
    by (simp add: save_cleared_def map_uid_update_first)
  with VerifyOtp assms show ?thesis
    by (simp add: handle_def verify_otp_def Let_def respond_def split: option.splits)
next
  case Analyze
  with assms analyze_effect [of rt ev st _ req] show ?thesis
    by (simp add: handle_def guarded_def split: sum.splits)
next
  case WebScan
  with assms webscan_effect [of rt ev st _ req] show ?thesis
    by (simp add: handle_def guarded_def split: sum.splits)
next
  case Summarize
  with assms summarize_effect [of ev st _ req] show ?thesis
    by (simp add: handle_def guarded_def split: sum.splits)
next
  case GetHistory
  with assms get_history_effect [of ev st] show ?thesis
    by (simp add: handle_def guarded_def split: sum.splits)
qed

lemma reachable_ids_distinct:
  assumes "reachable rt cfg st toks"
  shows "distinct (map uid (users st))"
  using assms
proof (induction rule: reachable.induct)
  case start
  show ?case by (simp add: empty_store_def)
next
  case (request st toks req ev r)
  then show ?case by (simp add: handle_keeps_ids_distinct)
qed

section \<open>Properties\<close>

subsection \<open>Challenge consumption\<close>

text \<open>
  C1. Take a store whose users have distinct ids and a request with a non-empty phone.
  After \<^verbatim>\<open>/api/auth/send-otp\<close> has stored a code for it, \<^verbatim>\<open>/api/auth/verify-otp\<close> with
  that code, within the ten minutes and with the store answering, logs the user in and
  leaves both challenge fields \<^verbatim>\<open>null\<close>. A further \<^verbatim>\<open>verify-otp\<close> with the same code
  then answers 400 \<^verbatim>\<open>Invalid OTP\<close>, changes nothing and, whatever the clock and the
  store do, hands out no token.
\<close>

theorem challenge_consumed_once:
  assumes ids: "distinct (map uid (users st))"
      and phone: "body_phone req \<noteq> []"
      and requested: "\<not> write_fails ev1" "st1 = store_after (send_otp rt ev1 st req)"
      and code: "body_otp req = JStr (generated_otp rt ev1)"
      and first: "\<not> find_fails ev2" "\<not> write_fails ev2" "now ev2 \<le> now ev1 + 600000"
        "st2 = store_after (verify_otp cfg ev2 st1 req)"
  shows "(\<exists>u. findOne (body_phone req) st1 = Some u
            \<and> response (verify_otp cfg ev2 st1 req) =
                \<lparr>status = 200, body = Login ''Login successful''
                   (jwt_sign (uid u) (phone u) (signing_secret cfg) (now ev2))\<rparr>)
       \<and> (\<exists>u. findOne (body_phone req) st2 = Some u \<and> otp u = None \<and> otpExpires u = None)
       \<and> (\<not> find_fails ev3 \<longrightarrow>
            response (verify_otp cfg ev3 st2 req) = \<lparr>status = 400, body = Error ''Invalid OTP''\<rparr>)
       \<and> store_after (verify_otp cfg ev3 st2 req) = st2
       \<and> issued (response (verify_otp cfg ev3 st2 req)) = []"
proof -
  let ?p = "body_phone req"
  let ?code = "generated_otp rt ev1"
  define u where "u = (case findOne ?p st of
             None \<Rightarrow> \<lparr>uid = fresh_id (users st), phone = ?p, otp = Some ?code,
                       otpExpires = Some (now ev1 + 600000), createdAt = now ev1\<rparr>
           | Some u \<Rightarrow> u\<lparr>otp := Some ?code, otpExpires := Some (now ev1 + 600000)\<rparr>)"
  from phone requested
  have st1: "st1 = findOneAndUpdate ?p ?code (now ev1 + 600000) (now ev1) st"
    by (simp add: send_otp_def Let_def respond_def)
  then have found1: "findOne ?p st1 = Some u"
    by (simp add: findOne_after_upsert u_def)
  have fields: "otp u = Some ?code" "otpExpires u = Some (now ev1 + 600000)"
    by (simp_all add: u_def split: option.splits)
  from ids st1 have ids1: "distinct (map uid (users st1))"
    by (simp add: distinct_after_upsert)
  from first fields have fresh: "\<not> expired u (now ev2)"
    by (simp add: expired_def)
  from verify_otp_matching [OF first(1) found1 fields(1) code, of cfg] fresh first(2)
  have out2: "verify_otp cfg ev2 st1 req =
      respond 200 (Login ''Login successful'' (jwt_sign (uid u) (phone u) (signing_secret cfg) (now ev2)))
        (save_cleared u st1) [FindUser ?p, SaveUser (uid u)]"
    by simp
  then have st2: "st2 = save_cleared u st1"
    using first(4) by (simp add: respond_def)
  let ?v = "u\<lparr>otp := None, otpExpires := None\<rparr>"
  from findOne_after_save [OF ids1 found1] st2
  have found2: "findOne ?p st2 = Some ?v" by simp
  have consumed: "otp ?v = None" "otpExpires ?v = None" by simp_all
  note out3 = verify_otp_consumed [OF found2 consumed, of cfg ev3]
  from found1 out2 have a: "\<exists>u. findOne (body_phone req) st1 = Some u
            \<and> response (verify_otp cfg ev2 st1 req) =
                \<lparr>status = 200, body = Login ''Login successful''
                   (jwt_sign (uid u) (phone u) (signing_secret cfg) (now ev2))\<rparr>"
    by (simp add: respond_def)
  from found2 have b: "\<exists>u. findOne (body_phone req) st2 = Some u \<and> otp u = None \<and> otpExpires u = None"
    by simp
  from out3 code have c: "\<not> find_fails ev3 \<longrightarrow>
      response (verify_otp cfg ev3 st2 req) = \<lparr>status = 400, body = Error ''Invalid OTP''\<rparr>"
    and d: "store_after (verify_otp cfg ev3 st2 req) = st2"
    and e: "issued (response (verify_otp cfg ev3 st2 req)) = []"
    by (simp_all add: respond_def issued_def)
  from a b c d e show ?thesis by blast
qed

theorem challenge_consumed_once_witness:
  "status (response (verify_otp \<lparr>JWT_SECRET = Some ''k''\<rparr>
      \<lparr>now = 2000, random = 1 / 2, model_reply = CallFails, find_fails = False, write_fails = False\<rparr>
      (store_after (send_otp \<lparr>fractionToString = (\<lambda>r. ''80.5''), stringToNumber = (\<lambda>s. NaN)\<rparr>
        \<lparr>now = 1000, random = 1 / 2, model_reply = CallFails, find_fails = False, write_fails = False\<rparr> empty_store
        \<lparr>authorization = None, body_phone = ''555'', body_otp = JStr ''550000'', refText = None, tgtText = None, req_files = None, req_file = None\<rparr>))
      \<lparr>authorization = None, body_phone = ''555'', body_otp = JStr ''550000'', refText = None, tgtText = None, req_files = None, req_file = None\<rparr>)) = 200
   \<and> response (verify_otp \<lparr>JWT_SECRET = Some ''k''\<rparr>
      \<lparr>now = 3000, random = 1 / 2, model_reply = CallFails, find_fails = False, write_fails = False\<rparr>
      (store_after (verify_otp \<lparr>JWT_SECRET = Some ''k''\<rparr>
      \<lparr>now = 2000, random = 1 / 2, model_reply = CallFails, find_fails = False, write_fails = False\<rparr>
      (store_after (send_otp \<lparr>fractionToString = (\<lambda>r. ''80.5''), stringToNumber = (\<lambda>s. NaN)\<rparr>
        \<lparr>now = 1000, random = 1 / 2, model_reply = CallFails, find_fails = False, write_fails = False\<rparr> empty_store
        \<lparr>authorization = None, body_phone = ''555'', body_otp = JStr ''550000'', refText = None, tgtText = None, req_files = None, req_file = None\<rparr>))
      \<lparr>authorization = None, body_phone = ''555'', body_otp = JStr ''550000'', refText = None, tgtText = None, req_files = None, req_file = None\<rparr>))
      \<lparr>authorization = None, body_phone = ''555'', body_otp = JStr ''550000'', refText = None, tgtText = None, req_files = None, req_file = None\<rparr>) = \<lparr>status = 400, body = Error ''Invalid OTP''\<rparr>"
proof -
  let ?rt = "\<lparr>fractionToString = (\<lambda>r::rat. ''80.5''), stringToNumber = (\<lambda>s::string. NaN)\<rparr>"
  let ?cfg = "\<lparr>JWT_SECRET = Some ''k''\<rparr>"
  let ?ev1 = "\<lparr>now = 1000, random = 1 / 2, model_reply = CallFails, find_fails = False, write_fails = False\<rparr>"
  let ?ev2 = "\<lparr>now = 2000, random = 1 / 2, model_reply = CallFails, find_fails = False, write_fails = False\<rparr>"
  let ?ev3 = "\<lparr>now = 3000, random = 1 / 2, model_reply = CallFails, find_fails = False, write_fails = False\<rparr>"
  let ?req = "\<lparr>authorization = None, body_phone = ''555'', body_otp = JStr ''550000'', refText = None, tgtText = None, req_files = None, req_file = None\<rparr>"
  let ?st1 = "store_after (send_otp ?rt ?ev1 empty_store ?req)"
  let ?st2 = "store_after (verify_otp ?cfg ?ev2 ?st1 ?req)"
  have ids: "distinct (map uid (users empty_store))" by (simp add: empty_store_def)
  have phone: "body_phone ?req \<noteq> []" by simp
  have requested: "\<not> write_fails ?ev1" "?st1 = store_after (send_otp ?rt ?ev1 empty_store ?req)"
    by simp_all
  have code: "body_otp ?req = JStr (generated_otp ?rt ?ev1)"
    by (simp add: generated_otp_def Number_toString_def is_safe_integer_def int_toString_def
        digits.simps digit_char_def)
  have first: "\<not> find_fails ?ev2" "\<not> write_fails ?ev2" "now ?ev2 \<le> now ?ev1 + 600000"
    "?st2 = store_after (verify_otp ?cfg ?ev2 ?st1 ?req)"
    by simp_all
  from challenge_consumed_once [OF ids phone requested code first, of ?ev3]
  show ?thesis by (auto simp add: respond_def)
qed

subsection \<open>Expiry boundary\<close>

text \<open>
  C2, amended. For a stored challenge with expiry \<open>e\<close> and a matching submitted code,
  \<^verbatim>\<open>/api/auth/verify-otp\<close> answers \<^verbatim>\<open>OTP expired\<close> (and leaves the store alone) when the
  clock is strictly past \<open>e\<close>; when the clock is at or before \<open>e\<close> it does not, and logs the
  user in if the store accepts the write.
\<close>

theorem expiry_boundary:
  assumes found: "\<not> find_fails ev" "findOne (body_phone req) st = Some u"
      and matches: "otp u = Some code" "body_otp req = JStr code"
      and expiry: "otpExpires u = Some e"
  shows "(e < now ev \<longrightarrow>
            response (verify_otp cfg ev st req) = \<lparr>status = 400, body = Error ''OTP expired''\<rparr>
            \<and> store_after (verify_otp cfg ev st req) = st)
       \<and> (now ev \<le> e \<longrightarrow>
            response (verify_otp cfg ev st req) \<noteq> \<lparr>status = 400, body = Error ''OTP expired''\<rparr>)
       \<and> (now ev \<le> e \<and> \<not> write_fails ev \<longrightarrow>
            response (verify_otp cfg ev st req) =
              \<lparr>status = 200, body = Login ''Login successful''
                 (jwt_sign (uid u) (phone u) (signing_secret cfg) (now ev))\<rparr>)"
  using expiry
  by (simp add: verify_otp_matching [OF found matches] expired_def respond_def)

theorem expiry_boundary_witness:
  "response (verify_otp \<lparr>JWT_SECRET = Some ''k''\<rparr>
      \<lparr>now = 600001, random = 0, model_reply = CallFails, find_fails = False, write_fails = False\<rparr>
      \<lparr>users = [\<lparr>uid = 0, phone = ''555'', otp = Some ''123456'', otpExpires = Some 600000,
                  createdAt = 0\<rparr>], history = []\<rparr>
      \<lparr>authorization = None, body_phone = ''555'', body_otp = JStr ''123456'', refText = None,
        tgtText = None, req_files = None, req_file = None\<rparr>)
    = \<lparr>status = 400, body = Error ''OTP expired''\<rparr>
   \<and> status (response (verify_otp \<lparr>JWT_SECRET = Some ''k''\<rparr>
      \<lparr>now = 600000, random = 0, model_reply = CallFails, find_fails = False, write_fails = False\<rparr>
      \<lparr>users = [\<lparr>uid = 0, phone = ''555'', otp = Some ''123456'', otpExpires = Some 600000,
                  createdAt = 0\<rparr>], history = []\<rparr>
      \<lparr>authorization = None, body_phone = ''555'', body_otp = JStr ''123456'', refText = None,
        tgtText = None, req_files = None, req_file = None\<rparr>)) = 200"
proof -
  let ?late = "\<lparr>now = 600001, random = 0, model_reply = CallFails, find_fails = False,
      write_fails = False\<rparr>"
  let ?edge = "\<lparr>now = 600000, random = 0, model_reply = CallFails, find_fails = False,
      write_fails = False\<rparr>"
  let ?u = "\<lparr>uid = 0, phone = ''555'', otp = Some ''123456'', otpExpires = Some 600000,
      createdAt = 0\<rparr>"
  let ?st = "\<lparr>users = [?u], history = []\<rparr>"
  let ?req = "\<lparr>authorization = None, body_phone = ''555'', body_otp = JStr ''123456'',
      refText = None, tgtText = None, req_files = None, req_file = None\<rparr>"
  have found: "\<not> find_fails ?late" "findOne (body_phone ?req) ?st = Some ?u"
    and found': "\<not> find_fails ?edge" "findOne (body_phone ?req) ?st = Some ?u"
    by (simp_all add: findOne_def)
  have matches: "otp ?u = Some ''123456''" "body_otp ?req = JStr ''123456''" by simp_all
  have expiry: "otpExpires ?u = Some 600000" by simp
  from expiry_boundary [OF found matches expiry, of "\<lparr>JWT_SECRET = Some ''k''\<rparr>"]
  have late: "response (verify_otp \<lparr>JWT_SECRET = Some ''k''\<rparr> ?late ?st ?req)
      = \<lparr>status = 400, body = Error ''OTP expired''\<rparr>" by simp
  from expiry_boundary [OF found' matches expiry, of "\<lparr>JWT_SECRET = Some ''k''\<rparr>"]
  have edge: "status (response (verify_otp \<lparr>JWT_SECRET = Some ''k''\<rparr> ?edge ?st ?req)) = 200"
    by simp
  from late edge show ?thesis by (rule conjI)
qed

text \<open>
  C2 as stated fails at the expiry instant: there the comparison
  \<^verbatim>\<open>user.otpExpires < new Date()\<close> is false, and a matching code presented when the clock
  equals the stored expiry logs the user in.
\<close>

theorem expiry_instant_counterexample:
  "now \<lparr>now = 600000, random = 0, model_reply = CallFails, find_fails = False, write_fails = False\<rparr>
     \<ge> 600000
   \<and> response (verify_otp \<lparr>JWT_SECRET = Some ''k''\<rparr>
      \<lparr>now = 600000, random = 0, model_reply = CallFails, find_fails = False, write_fails = False\<rparr>
      \<lparr>users = [\<lparr>uid = 0, phone = ''555'', otp = Some ''123456'', otpExpires = Some 600000,
                  createdAt = 0\<rparr>], history = []\<rparr>
      \<lparr>authorization = None, body_phone = ''555'', body_otp = JStr ''123456'', refText = None,
        tgtText = None, req_files = None, req_file = None\<rparr>)
    = \<lparr>status = 200, body = Login ''Login successful''
         \<lparr>sub_id = 0, sub_phone = ''555'', iat = 600, exp = 605400, signed_with = ''k''\<rparr>\<rparr>"
  by (simp add: verify_otp_def Let_def findOne_def stored_otp_def expired_def respond_def
      jwt_sign_def signing_secret_def)

subsection \<open>Write after validate\<close>

text \<open>
  C3. In each of the three analysis handlers, when the model call throws, its text is not
  JSON, or building the history entry from the parsed value throws (a required field
  cannot be read), the response is the handler's generic 500 failure, the store is
  unchanged and \<^verbatim>\<open>History.create\<close> is not called. Conversely, when a handler changes the
  history, the model output was parsed, the entry was built from it without a throw, and
  exactly that entry was appended. A handler that does not answer 200 leaves the store as
  it was.
\<close>

theorem write_after_validate:
  "((model_reply ev = CallFails \<or> model_reply ev = NotJson
       \<or> (\<exists>v files ex. model_reply ev = Parsed v \<and> req_files req = Some files
             \<and> similarity_entry rt ev usr files v = Inl ex))
      \<longrightarrow> response (analyze rt ev st usr req)
            = \<lparr>status = 500, body = Error ''Similarity analysis failed''\<rparr>
        \<and> store_after (analyze rt ev st usr req) = st
        \<and> (\<forall>e. CreateHistory e \<notin> set (effects (analyze rt ev st usr req))))
   \<and> ((model_reply ev = CallFails \<or> model_reply ev = NotJson
       \<or> (\<exists>v ex. model_reply ev = Parsed v
             \<and> webscan_entry rt ev usr (req_file req) v = Inl ex))
      \<longrightarrow> response (webscan rt ev st usr req) = \<lparr>status = 500, body = Error ''Web scan failed''\<rparr>
        \<and> store_after (webscan rt ev st usr req) = st
        \<and> (\<forall>e. CreateHistory e \<notin> set (effects (webscan rt ev st usr req))))
   \<and> ((model_reply ev = CallFails \<or> model_reply ev = NotJson)
      \<longrightarrow> response (summarize ev st usr req)
            = \<lparr>status = 500, body = Error ''Summarization failed''\<rparr>
        \<and> store_after (summarize ev st usr req) = st
        \<and> (\<forall>e. CreateHistory e \<notin> set (effects (summarize ev st usr req))))
   \<and> (history (store_after (analyze rt ev st usr req)) \<noteq> history st
      \<longrightarrow> (\<exists>v files e. model_reply ev = Parsed v \<and> req_files req = Some files
             \<and> similarity_entry rt ev usr files v = Inr e
             \<and> history (store_after (analyze rt ev st usr req)) = history st @ [e]))
   \<and> (history (store_after (webscan rt ev st usr req)) \<noteq> history st
      \<longrightarrow> (\<exists>v e. model_reply ev = Parsed v
             \<and> webscan_entry rt ev usr (req_file req) v = Inr e
             \<and> history (store_after (webscan rt ev st usr req)) = history st @ [e]))
   \<and> (history (store_after (summarize ev st usr req)) \<noteq> history st
      \<longrightarrow> (\<exists>v e. model_reply ev = Parsed v
             \<and> summary_entry ev usr (req_file req) v = Inr e
             \<and> history (store_after (summarize ev st usr req)) = history st @ [e]))
   \<and> (status (response (analyze rt ev st usr req)) \<noteq> 200
      \<longrightarrow> store_after (analyze rt ev st usr req) = st)
   \<and> (status (response (webscan rt ev st usr req)) \<noteq> 200
      \<longrightarrow> store_after (webscan rt ev st usr req) = st)
   \<and> (status (response (summarize ev st usr req)) \<noteq> 200
      \<longrightarrow> store_after (summarize ev st usr req) = st)"
proof (intro conjI impI)
  assume "model_reply ev = CallFails \<or> model_reply ev = NotJson
       \<or> (\<exists>v files ex. model_reply ev = Parsed v \<and> req_files req = Some files
             \<and> similarity_entry rt ev usr files v = Inl ex)"
  then show "response (analyze rt ev st usr req)
            = \<lparr>status = 500, body = Error ''Similarity analysis failed''\<rparr>"
    and "store_after (analyze rt ev st usr req) = st"
    and "\<forall>e. CreateHistory e \<notin> set (effects (analyze rt ev st usr req))"
    by (auto simp add: analyze_def respond_def Let_def split: option.splits)
next
  assume "model_reply ev = CallFails \<or> model_reply ev = NotJson
       \<or> (\<exists>v ex. model_reply ev = Parsed v
             \<and> webscan_entry rt ev usr (req_file req) v = Inl ex)"
  then show "response (webscan rt ev st usr req) = \<lparr>status = 500, body = Error ''Web scan failed''\<rparr>"
    and "store_after (webscan rt ev st usr req) = st"
    and "\<forall>e. CreateHistory e \<notin> set (effects (webscan rt ev st usr req))"
    by (auto simp add: webscan_def respond_def Let_def)
next
  assume "model_reply ev = CallFails \<or> model_reply ev = NotJson"
  then show "response (summarize ev st usr req)
            = \<lparr>status = 500, body = Error ''Summarization failed''\<rparr>"
    and "store_after (summarize ev st usr req) = st"
    and "\<forall>e. CreateHistory e \<notin> set (effects (summarize ev st usr req))"
    by (auto simp add: summarize_def respond_def Let_def)
next
  assume "history (store_after (analyze rt ev st usr req)) \<noteq> history st"
  with analyze_cases [of rt ev st usr req]
  show "\<exists>v files e. model_reply ev = Parsed v \<and> req_files req = Some files
             \<and> similarity_entry rt ev usr files v = Inr e
             \<and> history (store_after (analyze rt ev st usr req)) = history st @ [e]"
    by auto
next
  assume "history (store_after (webscan rt ev st usr req)) \<noteq> history st"
  with webscan_cases [of rt ev st usr req]
  show "\<exists>v e. model_reply ev = Parsed v
             \<and> webscan_entry rt ev usr (req_file req) v = Inr e
             \<and> history (store_after (webscan rt ev st usr req)) = history st @ [e]"
    by auto
next
  assume "history (store_after (summarize ev st usr req)) \<noteq> history st"
  with summarize_cases [of ev st usr req]
  show "\<exists>v e. model_reply ev = Parsed v
             \<and> summary_entry ev usr (req_file req) v = Inr e
             \<and> history (store_after (summarize ev st usr req)) = history st @ [e]"
    by auto
next
  assume "status (response (analyze rt ev st usr req)) \<noteq> 200"
  with analyze_cases [of rt ev st usr req]
  show "store_after (analyze rt ev st usr req) = st" by auto
next
  assume "status (response (webscan rt ev st usr req)) \<noteq> 200"
  with webscan_cases [of rt ev st usr req]
  show "store_after (webscan rt ev st usr req) = st" by auto
next
  assume "status (response (summarize ev st usr req)) \<noteq> 200"
  with summarize_cases [of ev st usr req]
  show "store_after (summarize ev st usr req) = st" by auto
qed

theorem write_after_validate_witness:
  "store_after (analyze \<lparr>fractionToString = (\<lambda>r. ''80.5''), stringToNumber = (\<lambda>s. NaN)\<rparr>
      \<lparr>now = 1000, random = 0, model_reply = NotJson, find_fails = False, write_fails = False\<rparr>
      empty_store \<lparr>sub_id = 0, sub_phone = ''555'', iat = 0, exp = 604800, signed_with = ''k''\<rparr>
      \<lparr>authorization = None, body_phone = [], body_otp = JUndefined, refText = None,
        tgtText = None, req_files = Some (None, None), req_file = None\<rparr>) = empty_store
   \<and> store_after (webscan \<lparr>fractionToString = (\<lambda>r. ''80.5''), stringToNumber = (\<lambda>s. NaN)\<rparr>
      \<lparr>now = 1000, random = 0, model_reply = Parsed (JObj []), find_fails = False,
        write_fails = False\<rparr>
      empty_store \<lparr>sub_id = 0, sub_phone = ''555'', iat = 0, exp = 604800, signed_with = ''k''\<rparr>
      \<lparr>authorization = None, body_phone = [], body_otp = JUndefined, refText = None,
        tgtText = None, req_files = Some (None, None), req_file = None\<rparr>) = empty_store
   \<and> store_after (summarize
      \<lparr>now = 1000, random = 0, model_reply = NotJson, find_fails = False, write_fails = False\<rparr>
      empty_store \<lparr>sub_id = 0, sub_phone = ''555'', iat = 0, exp = 604800, signed_with = ''k''\<rparr>
      \<lparr>authorization = None, body_phone = [], body_otp = JUndefined, refText = None,
        tgtText = None, req_files = Some (None, None), req_file = None\<rparr>) = empty_store
   \<and> (\<exists>e. similarity_entry \<lparr>fractionToString = (\<lambda>r. ''80.5''), stringToNumber = (\<lambda>s. NaN)\<rparr>
          \<lparr>now = 1000, random = 0,
            model_reply = Parsed (JObj [(''similarity_score'', JNum (Finite 30)), (''sources'', JArr [])]),
            find_fails = False, write_fails = False\<rparr>
          \<lparr>sub_id = 0, sub_phone = ''555'', iat = 0, exp = 604800, signed_with = ''k''\<rparr>
          (None, None)
          (JObj [(''similarity_score'', JNum (Finite 30)), (''sources'', JArr [])]) = Inr e)
   \<and> (\<exists>e. webscan_entry \<lparr>fractionToString = (\<lambda>r. ''80.5''), stringToNumber = (\<lambda>s. NaN)\<rparr>
          \<lparr>now = 1000, random = 0,
            model_reply = Parsed (JObj [(''similarity_score'', JNum (Finite 30)), (''sources'', JArr [])]),
            find_fails = False, write_fails = False\<rparr>
          \<lparr>sub_id = 0, sub_phone = ''555'', iat = 0, exp = 604800, signed_with = ''k''\<rparr>
          None
          (JObj [(''similarity_score'', JNum (Finite 30)), (''sources'', JArr [])]) = Inr e)"
proof -
  let ?rt = "\<lparr>fractionToString = (\<lambda>r::rat. ''80.5''), stringToNumber = (\<lambda>s::string. NaN)\<rparr>"
  let ?usr = "\<lparr>sub_id = 0, sub_phone = ''555'', iat = 0, exp = 604800, signed_with = ''k''\<rparr>"
  let ?req = "\<lparr>authorization = None, body_phone = [], body_otp = JUndefined, refText = None,
        tgtText = None, req_files = Some (None, None), req_file = None\<rparr>"
  let ?bad = "\<lparr>now = 1000, random = 0, model_reply = NotJson, find_fails = False,
        write_fails = False\<rparr>"
  let ?hollow = "\<lparr>now = 1000, random = 0, model_reply = Parsed (JObj []), find_fails = False,
        write_fails = False\<rparr>"
  let ?v = "JObj [(''similarity_score'', JNum (Finite 30)), (''sources'', JArr [])]"
  let ?good = "\<lparr>now = 1000, random = 0, model_reply = Parsed ?v, find_fails = False,
        write_fails = False\<rparr>"
  have printed: "int_toString 30 = ''30''" "int_toString 0 = ''0''"
    by (simp_all add: int_toString_def digits.simps digit_char_def)
  have hollow: "webscan_entry ?rt ?hollow ?usr (req_file ?req) (JObj []) = Inl TypeError"
    by (simp add: webscan_entry_def first_source_score_def bind_e_simps)
  have grown: "history (store_after (analyze ?rt ?good empty_store ?usr ?req)) \<noteq> history empty_store"
    by (simp add: analyze_def similarity_entry_def bind_e_simps call_toString_def
        similarity_verdict_number Number_toString_def is_safe_integer_def printed file_name_def
        create_and_reply_def History_create_def respond_def)
  have scanned: "history (store_after (webscan ?rt ?good empty_store ?usr ?req)) \<noteq> history empty_store"
    by (simp add: webscan_def webscan_entry_no_source file_name_def
        create_and_reply_def History_create_def respond_def)
  from write_after_validate [of ?bad ?req ?rt ?usr empty_store]
  have a: "store_after (analyze ?rt ?bad empty_store ?usr ?req) = empty_store"
    and c: "store_after (summarize ?bad empty_store ?usr ?req) = empty_store"
    by simp_all
  from write_after_validate [of ?hollow ?req ?rt ?usr empty_store] hollow
  have b: "store_after (webscan ?rt ?hollow empty_store ?usr ?req) = empty_store"
    by simp
  from write_after_validate [of ?good ?req ?rt ?usr empty_store] grown scanned
  have d: "\<exists>e. similarity_entry ?rt ?good ?usr (None, None) ?v = Inr e"
    and e: "\<exists>e. webscan_entry ?rt ?good ?usr None ?v = Inr e"
    by auto
  from a b c d e show ?thesis by blast
qed

subsection \<open>Session token lifetime\<close>

text \<open>
  C4. With \<^verbatim>\<open>JWT_SECRET\<close> configured (non-empty), the token a successful
  \<^verbatim>\<open>/api/auth/verify-otp\<close> returns carries the found user's id and phone, \<open>iat\<close> the clock
  in whole seconds, \<open>exp\<close> exactly seven days after \<open>iat\<close>, and is signed with the
  configured secret. Sent back as \<^verbatim>\<open>Bearer <token>\<close>, \<^verbatim>\<open>authMiddleware\<close> accepts it (and
  decodes that payload) at every clock strictly before \<open>exp\<close> and answers 400 at \<open>exp\<close>
  and after.
\<close>

theorem session_token_lifetime:
  assumes secret: "JWT_SECRET cfg = Some k" "k \<noteq> []"
      and login: "response (verify_otp cfg ev st req) = \<lparr>status = 200, body = Login msg tok\<rparr>"
      and presented: "authorization req' = Some (Token ''Bearer '' tok)"
  shows "(\<exists>u. findOne (body_phone req) st = Some u \<and> sub_id tok = uid u \<and> sub_phone tok = phone u)
       \<and> iat tok = now ev div 1000
       \<and> exp tok = iat tok + 7 * 24 * 60 * 60
       \<and> signed_with tok = k
       \<and> (now ev' < 1000 * exp tok \<longrightarrow> authMiddleware cfg ev' req' = Inr tok)
       \<and> (1000 * exp tok \<le> now ev' \<longrightarrow>
            authMiddleware cfg ev' req' = Inl \<lparr>status = 400, body = Error ''Invalid token.''\<rparr>)"
proof -
  from verify_otp_login [OF login] obtain u
    where u: "findOne (body_phone req) st = Some u"
      and tok: "tok = jwt_sign (uid u) (phone u) (signing_secret cfg) (now ev)" by blast
  from secret have key: "signing_secret cfg = k" by (simp add: signing_secret_def)
  from tok key have fields: "sub_id tok = uid u" "sub_phone tok = phone u"
    "iat tok = now ev div 1000" "exp tok = iat tok + 7 * 24 * 60 * 60" "signed_with tok = k"
    by (simp_all add: jwt_sign_def)
  from secret fields(5)
  have checked: "jwt_verify (Token [] tok) (JWT_SECRET cfg) (now ev') =
      (if 1000 * exp tok \<le> now ev' then Inl TokenExpired else Inr tok)"
    unfolding jwt_verify_def seconds_before by simp
  have early: "now ev' < 1000 * exp tok \<longrightarrow> authMiddleware cfg ev' req' = Inr tok"
    unfolding authMiddleware_bearer [OF presented] checked by simp
  have late: "1000 * exp tok \<le> now ev' \<longrightarrow>
      authMiddleware cfg ev' req' = Inl \<lparr>status = 400, body = Error ''Invalid token.''\<rparr>"
    unfolding authMiddleware_bearer [OF presented] checked by simp
  from u fields(1,2)
  have owner: "\<exists>u. findOne (body_phone req) st = Some u \<and> sub_id tok = uid u \<and> sub_phone tok = phone u"
    by blast
  from owner fields(3,4,5) early late show ?thesis by blast
qed

theorem session_token_lifetime_witness:
  "authMiddleware \<lparr>JWT_SECRET = Some ''k''\<rparr>
     \<lparr>now = 604800999, random = 0, model_reply = CallFails, find_fails = False, write_fails = False\<rparr>
     \<lparr>authorization = Some (Token ''Bearer '' \<lparr>sub_id = 0, sub_phone = ''555'', iat = 1, exp = 604801, signed_with = ''k''\<rparr>), body_phone = [], body_otp = JUndefined, refText = None, tgtText = None, req_files = None, req_file = None\<rparr>
    = Inr \<lparr>sub_id = 0, sub_phone = ''555'', iat = 1, exp = 604801, signed_with = ''k''\<rparr>
   \<and> authMiddleware \<lparr>JWT_SECRET = Some ''k''\<rparr>
     \<lparr>now = 604801000, random = 0, model_reply = CallFails, find_fails = False, write_fails = False\<rparr>
     \<lparr>authorization = Some (Token ''Bearer '' \<lparr>sub_id = 0, sub_phone = ''555'', iat = 1, exp = 604801, signed_with = ''k''\<rparr>), body_phone = [], body_otp = JUndefined, refText = None, tgtText = None, req_files = None, req_file = None\<rparr>
    = Inl \<lparr>status = 400, body = Error ''Invalid token.''\<rparr>"
proof -
  let ?cfg = "\<lparr>JWT_SECRET = Some ''k''\<rparr>"
  let ?ev = "\<lparr>now = 1999, random = 0, model_reply = CallFails, find_fails = False, write_fails = False\<rparr>"
  let ?st = "\<lparr>users = [\<lparr>uid = 0, phone = ''555'', otp = Some ''123456'', otpExpires = Some 600000, createdAt = 0\<rparr>], history = []\<rparr>"
  let ?req = "\<lparr>authorization = None, body_phone = ''555'', body_otp = JStr ''123456'', refText = None, tgtText = None, req_files = None, req_file = None\<rparr>"
  let ?tok = "\<lparr>sub_id = 0, sub_phone = ''555'', iat = 1, exp = 604801, signed_with = ''k''\<rparr>"
  let ?req' = "\<lparr>authorization = Some (Token ''Bearer '' \<lparr>sub_id = 0, sub_phone = ''555'', iat = 1, exp = 604801, signed_with = ''k''\<rparr>), body_phone = [], body_otp = JUndefined, refText = None, tgtText = None, req_files = None, req_file = None\<rparr>"
  let ?early = "\<lparr>now = 604800999, random = 0, model_reply = CallFails, find_fails = False, write_fails = False\<rparr>"
  let ?late = "\<lparr>now = 604801000, random = 0, model_reply = CallFails, find_fails = False, write_fails = False\<rparr>"
  have secret: "JWT_SECRET ?cfg = Some ''k''" "''k'' \<noteq> []" by simp_all
  have login: "response (verify_otp ?cfg ?ev ?st ?req)
      = \<lparr>status = 200, body = Login ''Login successful'' ?tok\<rparr>"
    by (simp add: verify_otp_def Let_def findOne_def stored_otp_def expired_def respond_def
        jwt_sign_def signing_secret_def)
  have presented: "authorization ?req' = Some (Token ''Bearer '' ?tok)" by simp
  from session_token_lifetime [OF secret login presented, of ?early]
  have early: "authMiddleware ?cfg ?early ?req' = Inr ?tok" by simp
  from session_token_lifetime [OF secret login presented, of ?late]
  have late: "authMiddleware ?cfg ?late ?req' = Inl \<lparr>status = 400, body = Error ''Invalid token.''\<rparr>"
    by simp
  from early late show ?thesis by (rule conjI)
qed

subsection \<open>Authentication precedes work\<close>

text \<open>
  C5. On \<^verbatim>\<open>/api/analyze\<close>, \<^verbatim>\<open>/api/webscan\<close>, \<^verbatim>\<open>/api/summarize\<close> and \<^verbatim>\<open>/api/history\<close>, a
  request without a bearer token is answered 401, and one whose token \<^verbatim>\<open>jwt.verify\<close>
  refuses (malformed, wrong signature, expired, no secret) is answered 400; in both
  cases the store is unchanged and no effect happens: no model call, no store read, no
  store write. A request that causes any effect passed the middleware.
\<close>

theorem authentication_precedes_work:
  assumes protected: "r \<in> {Analyze, WebScan, Summarize, GetHistory}"
  shows "(no_token (bearer_token req) \<longrightarrow>
            handle rt cfg ev st r req =
              \<lparr>response = \<lparr>status = 401, body = Error ''Access denied. No token provided.''\<rparr>,
               store_after = st, effects = []\<rparr>)
       \<and> (\<not> no_token (bearer_token req) \<and> bearer_token req = Some token
            \<and> jwt_verify token (JWT_SECRET cfg) (now ev) = Inl ex \<longrightarrow>
            handle rt cfg ev st r req =
              \<lparr>response = \<lparr>status = 400, body = Error ''Invalid token.''\<rparr>,
               store_after = st, effects = []\<rparr>)
       \<and> (effects (handle rt cfg ev st r req) \<noteq> [] \<longrightarrow>
            (\<exists>decoded. authMiddleware cfg ev req = Inr decoded))"
proof (intro conjI impI)
  assume "no_token (bearer_token req)"
  then show "handle rt cfg ev st r req =
      \<lparr>response = \<lparr>status = 401, body = Error ''Access denied. No token provided.''\<rparr>,
       store_after = st, effects = []\<rparr>"
    by (intro handle_rejected [OF protected] authMiddleware_rejects)
next
  assume "\<not> no_token (bearer_token req) \<and> bearer_token req = Some token
            \<and> jwt_verify token (JWT_SECRET cfg) (now ev) = Inl ex"
  then have "authMiddleware cfg ev req = Inl \<lparr>status = 400, body = Error ''Invalid token.''\<rparr>"
    using authMiddleware_rejects(2) [of req token cfg ev ex] by blast
  then show "handle rt cfg ev st r req =
      \<lparr>response = \<lparr>status = 400, body = Error ''Invalid token.''\<rparr>,
       store_after = st, effects = []\<rparr>"
    by (rule handle_rejected [OF protected])
next
  assume entered: "effects (handle rt cfg ev st r req) \<noteq> []"
  show "\<exists>decoded. authMiddleware cfg ev req = Inr decoded"
  proof (cases "authMiddleware cfg ev req")
    case (Inl res)
    from handle_rejected [OF protected Inl] entered show ?thesis by simp
  next
    case (Inr decoded)
    then show ?thesis by blast
  qed
qed

theorem authentication_precedes_work_witness:
  "handle \<lparr>fractionToString = (\<lambda>r. ''80.5''), stringToNumber = (\<lambda>s. NaN)\<rparr>
      \<lparr>JWT_SECRET = Some ''k''\<rparr>
      \<lparr>now = 604800000, random = 0, model_reply = Parsed JNull, find_fails = False,
        write_fails = False\<rparr>
      empty_store Analyze
      \<lparr>authorization = Some (Plain ''Bearer ''), body_phone = [], body_otp = JUndefined,
        refText = None, tgtText = None, req_files = Some (None, None), req_file = None\<rparr>
    = \<lparr>response = \<lparr>status = 401, body = Error ''Access denied. No token provided.''\<rparr>,
       store_after = empty_store, effects = []\<rparr>
   \<and> handle \<lparr>fractionToString = (\<lambda>r. ''80.5''), stringToNumber = (\<lambda>s. NaN)\<rparr>
      \<lparr>JWT_SECRET = Some ''k''\<rparr>
      \<lparr>now = 604800000, random = 0, model_reply = Parsed JNull, find_fails = False,
        write_fails = False\<rparr>
      empty_store GetHistory
      \<lparr>authorization = Some (Token ''Bearer ''
          \<lparr>sub_id = 0, sub_phone = ''555'', iat = 0, exp = 604800, signed_with = ''k''\<rparr>),
        body_phone = [], body_otp = JUndefined,
        refText = None, tgtText = None, req_files = None, req_file = None\<rparr>
    = \<lparr>response = \<lparr>status = 400, body = Error ''Invalid token.''\<rparr>,
       store_after = empty_store, effects = []\<rparr>"
proof -
  let ?rt = "\<lparr>fractionToString = (\<lambda>r::rat. ''80.5''), stringToNumber = (\<lambda>s::string. NaN)\<rparr>"
  let ?cfg = "\<lparr>JWT_SECRET = Some ''k''\<rparr>"
  let ?ev = "\<lparr>now = 604800000, random = 0, model_reply = Parsed JNull, find_fails = False,
        write_fails = False\<rparr>"
  let ?anon = "\<lparr>authorization = Some (Plain ''Bearer ''), body_phone = [], body_otp = JUndefined,
        refText = None, tgtText = None, req_files = Some (None, None), req_file = None\<rparr>"
  let ?tok = "\<lparr>sub_id = 0, sub_phone = ''555'', iat = 0, exp = 604800, signed_with = ''k''\<rparr>"
  let ?late = "\<lparr>authorization = Some (Token ''Bearer '' ?tok), body_phone = [], body_otp = JUndefined,
        refText = None, tgtText = None, req_files = None, req_file = None\<rparr>"
  have r1: "Analyze \<in> {Analyze, WebScan, Summarize, GetHistory}"
    and r2: "GetHistory \<in> {Analyze, WebScan, Summarize, GetHistory}" by simp_all
  have anon: "no_token (bearer_token ?anon)"
    by (simp add: no_token_def bearer_token_def)
  have late: "\<not> no_token (bearer_token ?late)" "bearer_token ?late = Some (Token [] ?tok)"
    "jwt_verify (Token [] ?tok) (JWT_SECRET ?cfg) (now ?ev) = Inl TokenExpired"
    by (simp_all add: no_token_def bearer_token_def jwt_verify_def)
  from authentication_precedes_work [OF r1, of ?anon ?rt ?cfg ?ev empty_store] anon
  have first: "handle ?rt ?cfg ?ev empty_store Analyze ?anon
    = \<lparr>response = \<lparr>status = 401, body = Error ''Access denied. No token provided.''\<rparr>,
       store_after = empty_store, effects = []\<rparr>" by simp
  from authentication_precedes_work [OF r2, of ?late ?rt ?cfg ?ev empty_store "Token [] ?tok" TokenExpired]
    late
  have second: "handle ?rt ?cfg ?ev empty_store GetHistory ?late
    = \<lparr>response = \<lparr>status = 400, body = Error ''Invalid token.''\<rparr>,
       store_after = empty_store, effects = []\<rparr>" by simp
  from first second show ?thesis by (rule conjI)
qed

subsection \<open>Similarity verdict\<close>

text \<open>
  C6. Whenever the model output parses and its \<^verbatim>\<open>similarity_score\<close> is a number \<open>r\<close>, the
  history entry that \<^verbatim>\<open>/api/analyze\<close> records (if it records one: it appends at most one)
  has the score's text as its score and the verdict \<^verbatim>\<open>High\<close> exactly when \<open>80 \<le> r\<close>,
  \<^verbatim>\<open>Moderate\<close> exactly when \<open>50 \<le> r < 80\<close>, and \<^verbatim>\<open>Low\<close> exactly when \<open>r < 50\<close>. It does
  record one when the request is multipart, both language fields convert to strings, the
  score's text is not empty and the store accepts the write.
\<close>

theorem similarity_verdict_thresholds:
  assumes reply: "model_reply ev = Parsed analysis"
      and sc: "get_prop analysis ''similarity_score'' = Inr (JNum (Finite r))"
  shows "(history (store_after (analyze rt ev st usr req)) = history st
          \<or> (\<exists>e. history (store_after (analyze rt ev st usr req)) = history st @ [e]
                \<and> score e = Number_toString rt (Finite r)
                \<and> (verdict e = ''High'' \<longleftrightarrow> 80 \<le> r)
                \<and> (verdict e = ''Moderate'' \<longleftrightarrow> 50 \<le> r \<and> r < 80)
                \<and> (verdict e = ''Low'' \<longleftrightarrow> r < 50)))
       \<and> (req_files req \<noteq> None
            \<and> get_prop analysis ''ref_lang'' = Inr ref_lang \<and> ToString rt ref_lang = Inr ref_text
            \<and> get_prop analysis ''tgt_lang'' = Inr tgt_lang \<and> ToString rt tgt_lang = Inr tgt_text
            \<and> Number_toString rt (Finite r) \<noteq> [] \<and> \<not> write_fails ev
          \<longrightarrow> history (store_after (analyze rt ev st usr req)) \<noteq> history st)"
proof (intro conjI impI)
  from analyze_cases [of rt ev st usr req]
  show "history (store_after (analyze rt ev st usr req)) = history st
          \<or> (\<exists>e. history (store_after (analyze rt ev st usr req)) = history st @ [e]
                \<and> score e = Number_toString rt (Finite r)
                \<and> (verdict e = ''High'' \<longleftrightarrow> 80 \<le> r)
                \<and> (verdict e = ''Moderate'' \<longleftrightarrow> 50 \<le> r \<and> r < 80)
                \<and> (verdict e = ''Low'' \<longleftrightarrow> r < 50))"
  proof (elim disjE exE conjE)
    fix files analysis' e
    assume parsed: "model_reply ev = Parsed analysis'"
       and entry: "similarity_entry rt ev usr files analysis' = Inr e"
       and after: "store_after (analyze rt ev st usr req) = st\<lparr>history := history st @ [e]\<rparr>"
    from parsed reply have same: "analysis' = analysis" by simp
    from similarity_entry_fields [OF entry] sc same
    have "call_toString rt (JNum (Finite r)) = Inr (score e)"
      and "similarity_verdict rt (JNum (Finite r)) = Inr (verdict e)" by auto
    then have "score e = Number_toString rt (Finite r)"
      and "verdict e = (if 80 \<le> r then ''High'' else if 50 \<le> r then ''Moderate'' else ''Low'')"
      by (simp_all add: call_toString_def similarity_verdict_number)
    with after show ?thesis by auto
  qed simp
next
  assume ok: "req_files req \<noteq> None
            \<and> get_prop analysis ''ref_lang'' = Inr ref_lang \<and> ToString rt ref_lang = Inr ref_text
            \<and> get_prop analysis ''tgt_lang'' = Inr tgt_lang \<and> ToString rt tgt_lang = Inr tgt_text
            \<and> Number_toString rt (Finite r) \<noteq> [] \<and> \<not> write_fails ev"
  then obtain files where files: "req_files req = Some files" by auto
  define e where "e = \<lparr>userId = sub_id usr, kind = ''Similarity Check'',
      docs = file_name (fst files) ''Text'' @ '' -> '' @ file_name (snd files) ''Text'',
      score = Number_toString rt (Finite r), details = ref_text @ arrow @ tgt_text,
      verdict = (if 80 \<le> r then ''High'' else if 50 \<le> r then ''Moderate'' else ''Low''),
      loggedAt = now ev\<rparr>"
  from ok sc have entry: "similarity_entry rt ev usr files analysis = Inr e"
    by (simp add: similarity_entry_def bind_e_simps call_toString_def
        similarity_verdict_number e_def)
  from ok have "store_after (create_and_reply ev st effs ''Similarity analysis failed'' analysis e)
      = st\<lparr>history := history st @ [e]\<rparr>" for effs
    by (simp add: create_and_reply_def History_create_def respond_def e_def)
  with files reply entry
  have "store_after (analyze rt ev st usr req) = st\<lparr>history := history st @ [e]\<rparr>"
    by (simp add: analyze_def Let_def)
  then show "history (store_after (analyze rt ev st usr req)) \<noteq> history st" by simp
qed

theorem similarity_verdict_thresholds_witness:
  "\<exists>e. history (store_after (analyze
        \<lparr>fractionToString = (\<lambda>r. ''80.5''), stringToNumber = (\<lambda>s. NaN)\<rparr>
        \<lparr>now = 1000, random = 0,
          model_reply = Parsed (JObj [(''similarity_score'', JNum (Finite 80)),
            (''ref_lang'', JStr ''en''), (''tgt_lang'', JStr ''fr'')]),
          find_fails = False, write_fails = False\<rparr>
        empty_store
        \<lparr>sub_id = 0, sub_phone = ''555'', iat = 0, exp = 604800, signed_with = ''k''\<rparr>
        \<lparr>authorization = None, body_phone = [], body_otp = JUndefined, refText = Some ''a'',
          tgtText = Some ''b'', req_files = Some (None, None), req_file = None\<rparr>))
      = history empty_store @ [e] \<and> score e = ''80'' \<and> verdict e = ''High''"
proof -
  let ?analysis = "JObj [(''similarity_score'', JNum (Finite 80)),
            (''ref_lang'', JStr ''en''), (''tgt_lang'', JStr ''fr'')]"
  let ?rt = "\<lparr>fractionToString = (\<lambda>r::rat. ''80.5''), stringToNumber = (\<lambda>s::string. NaN)\<rparr>"
  let ?ev = "\<lparr>now = 1000, random = 0, model_reply = Parsed ?analysis,
          find_fails = False, write_fails = False\<rparr>"
  have reply: "model_reply ?ev = Parsed ?analysis" by simp
  have sc: "get_prop ?analysis ''similarity_score'' = Inr (JNum (Finite 80))" by simp
  have printed: "Number_toString ?rt (Finite 80) = ''80''"
    by (simp add: Number_toString_def is_safe_integer_def int_toString_def digits.simps digit_char_def)
  show ?thesis
    using similarity_verdict_thresholds [OF reply sc, of ?rt empty_store
        "\<lparr>sub_id = 0, sub_phone = ''555'', iat = 0, exp = 604800, signed_with = ''k''\<rparr>"
        "\<lparr>authorization = None, body_phone = [], body_otp = JUndefined, refText = Some ''a'',
          tgtText = Some ''b'', req_files = Some (None, None), req_file = None\<rparr>"
        "JStr ''en''" "''en''" "JStr ''fr''" "''fr''"] printed
    by auto
qed

subsection \<open>Web-scan defaults and verdict\<close>

text \<open>
  C7. When the model output parses, the store accepts the write and the document label is
  not empty, \<^verbatim>\<open>/api/webscan\<close> records score \<^verbatim>\<open>0\<close> and verdict \<^verbatim>\<open>Pass\<close> for an empty
  \<^verbatim>\<open>sources\<close> array; for a first source with a numeric score \<open>r\<close> it records the score's
  text and the verdict \<^verbatim>\<open>High Risk\<close> exactly when \<open>80 \<le> r\<close>, \<^verbatim>\<open>Pass\<close> exactly when
  \<open>r < 80\<close>. Whatever the output, an entry it records has one of these two verdicts.
\<close>

theorem webscan_defaults_and_verdict:
  assumes reply: "model_reply ev = Parsed scanResult"
      and accepted: "\<not> write_fails ev"
      and named: "file_name (req_file req) ''Document'' \<noteq> []"
  shows "(get_prop scanResult ''sources'' = Inr (JArr []) \<longrightarrow>
            (\<exists>e. store_after (webscan rt ev st usr req) = st\<lparr>history := history st @ [e]\<rparr>
               \<and> score e = ''0'' \<and> verdict e = ''Pass''))
       \<and> (get_prop scanResult ''sources'' = Inr (JArr (src # rest))
            \<and> get_prop src ''score'' = Inr (JNum (Finite r))
            \<and> Number_toString rt (Finite r) \<noteq> [] \<longrightarrow>
            (\<exists>e. store_after (webscan rt ev st usr req) = st\<lparr>history := history st @ [e]\<rparr>
               \<and> score e = Number_toString rt (Finite r)
               \<and> (verdict e = ''High Risk'' \<longleftrightarrow> 80 \<le> r)
               \<and> (verdict e = ''Pass'' \<longleftrightarrow> r < 80)))
       \<and> (history (store_after (webscan rt ev st usr req)) = history st
            \<or> (\<exists>e. history (store_after (webscan rt ev st usr req)) = history st @ [e]
                  \<and> (verdict e = ''High Risk'' \<or> verdict e = ''Pass'')))"
proof (intro conjI impI)
  assume none: "get_prop scanResult ''sources'' = Inr (JArr [])"
  let ?e = "\<lparr>userId = sub_id usr, kind = ''Web Scan'', docs = file_name (req_file req) ''Document'',
          score = ''0'', details = ''0 sources found'', verdict = ''Pass'', loggedAt = now ev\<rparr>"
  have "store_after (webscan rt ev st usr req) = st\<lparr>history := history st @ [?e]\<rparr>"
    using reply accepted named webscan_entry_no_source [OF none]
    by (intro webscan_written) simp_all
  then show "\<exists>e. store_after (webscan rt ev st usr req) = st\<lparr>history := history st @ [e]\<rparr>
               \<and> score e = ''0'' \<and> verdict e = ''Pass''"
    by (intro exI [of _ ?e]) simp
next
  assume some: "get_prop scanResult ''sources'' = Inr (JArr (src # rest))
            \<and> get_prop src ''score'' = Inr (JNum (Finite r))
            \<and> Number_toString rt (Finite r) \<noteq> []"
  let ?e = "\<lparr>userId = sub_id usr, kind = ''Web Scan'', docs = file_name (req_file req) ''Document'',
          score = Number_toString rt (Finite r),
          details = Number_toString rt (Finite (of_nat (Suc (length rest)))) @ '' sources found'',
          verdict = (if 80 \<le> r then ''High Risk'' else ''Pass''), loggedAt = now ev\<rparr>"
  from some have entry: "webscan_entry rt ev usr (req_file req) scanResult = Inr ?e"
    using webscan_entry_number [of scanResult src rest r rt ev usr "req_file req"] by simp
  have "store_after (webscan rt ev st usr req) = st\<lparr>history := history st @ [?e]\<rparr>"
    using reply accepted named some entry by (intro webscan_written) simp_all
  then show "\<exists>e. store_after (webscan rt ev st usr req) = st\<lparr>history := history st @ [e]\<rparr>
               \<and> score e = Number_toString rt (Finite r)
               \<and> (verdict e = ''High Risk'' \<longleftrightarrow> 80 \<le> r)
               \<and> (verdict e = ''Pass'' \<longleftrightarrow> r < 80)"
    by (intro exI [of _ ?e]) auto
next
  from webscan_cases [of rt ev st usr req]
  show "history (store_after (webscan rt ev st usr req)) = history st
            \<or> (\<exists>e. history (store_after (webscan rt ev st usr req)) = history st @ [e]
                  \<and> (verdict e = ''High Risk'' \<or> verdict e = ''Pass''))"
  proof (elim disjE exE conjE)
    fix scanResult' e
    assume "webscan_entry rt ev usr (req_file req) scanResult' = Inr e"
       and "store_after (webscan rt ev st usr req) = st\<lparr>history := history st @ [e]\<rparr>"
    with webscan_entry_verdict [of rt ev usr "req_file req" scanResult' e]
    show ?thesis by auto
  qed simp
qed

theorem webscan_defaults_and_verdict_witness:
  "(\<exists>e. store_after (webscan
        \<lparr>fractionToString = (\<lambda>r. ''80.5''), stringToNumber = (\<lambda>s. NaN)\<rparr>
        \<lparr>now = 1000, random = 0, model_reply = Parsed (JObj [(''sources'', JArr [])]),
          find_fails = False, write_fails = False\<rparr>
        empty_store
        \<lparr>sub_id = 0, sub_phone = ''555'', iat = 0, exp = 604800, signed_with = ''k''\<rparr>
        \<lparr>authorization = None, body_phone = [], body_otp = JUndefined, refText = None,
          tgtText = None, req_files = None, req_file = None\<rparr>)
      = empty_store\<lparr>history := history empty_store @ [e]\<rparr> \<and> score e = ''0'' \<and> verdict e = ''Pass'')
   \<and> (\<exists>e. store_after (webscan
        \<lparr>fractionToString = (\<lambda>r. ''80.5''), stringToNumber = (\<lambda>s. NaN)\<rparr>
        \<lparr>now = 1000, random = 0,
          model_reply = Parsed (JObj [(''sources'',
            JArr [JObj [(''name'', JStr ''a''), (''score'', JNum (Finite 90))]])]),
          find_fails = False, write_fails = False\<rparr>
        empty_store
        \<lparr>sub_id = 0, sub_phone = ''555'', iat = 0, exp = 604800, signed_with = ''k''\<rparr>
        \<lparr>authorization = None, body_phone = [], body_otp = JUndefined, refText = None,
          tgtText = None, req_files = None, req_file = None\<rparr>)
      = empty_store\<lparr>history := history empty_store @ [e]\<rparr> \<and> score e = ''90''
        \<and> verdict e = ''High Risk'')"
proof -
  let ?rt = "\<lparr>fractionToString = (\<lambda>r::rat. ''80.5''), stringToNumber = (\<lambda>s::string. NaN)\<rparr>"
  let ?usr = "\<lparr>sub_id = 0, sub_phone = ''555'', iat = 0, exp = 604800, signed_with = ''k''\<rparr>"
  let ?req = "\<lparr>authorization = None, body_phone = [], body_otp = JUndefined, refText = None,
          tgtText = None, req_files = None, req_file = None\<rparr>"
  let ?empty = "JObj [(''sources'', JArr [])]"
  let ?src = "JObj [(''name'', JStr ''a''), (''score'', JNum (Finite 90))]"
  let ?one = "JObj [(''sources'', JArr [?src])]"
  let ?ev0 = "\<lparr>now = 1000, random = 0, model_reply = Parsed ?empty,
          find_fails = False, write_fails = False\<rparr>"
  let ?ev1 = "\<lparr>now = 1000, random = 0, model_reply = Parsed ?one,
          find_fails = False, write_fails = False\<rparr>"
  have named: "file_name (req_file ?req) ''Document'' \<noteq> []" by (simp add: file_name_def)
  have reply0: "model_reply ?ev0 = Parsed ?empty" and ok0: "\<not> write_fails ?ev0" by simp_all
  have reply1: "model_reply ?ev1 = Parsed ?one" and ok1: "\<not> write_fails ?ev1" by simp_all
  have printed: "Number_toString ?rt (Finite 90) = ''90''"
    by (simp add: Number_toString_def is_safe_integer_def int_toString_def digits.simps digit_char_def)
  have first: "\<exists>e. store_after (webscan ?rt ?ev0 empty_store ?usr ?req)
      = empty_store\<lparr>history := history empty_store @ [e]\<rparr> \<and> score e = ''0'' \<and> verdict e = ''Pass''"
    using webscan_defaults_and_verdict [OF reply0 ok0 named, where rt = ?rt and st = empty_store and usr = ?usr] by auto
  have second: "\<exists>e. store_after (webscan ?rt ?ev1 empty_store ?usr ?req)
      = empty_store\<lparr>history := history empty_store @ [e]\<rparr> \<and> score e = ''90''
        \<and> verdict e = ''High Risk''"
    using webscan_defaults_and_verdict [OF reply1 ok1 named, where src = ?src and rest = "[]" and r = 90
          and rt = ?rt and st = empty_store and usr = ?usr]
      printed by auto
  from first second show ?thesis by (rule conjI)
qed

subsection \<open>History owners\<close>

text \<open>
  C8. In every state the server reaches from the empty store by answering requests whose
  tokens are not forged, each history entry's \<open>userId\<close> is the id of a stored user. A
  further such request appends at most one entry, only on one of the three analysis
  routes, and the \<open>userId\<close> of that entry is the id of a user stored at that moment.
\<close>

theorem history_owner_exists:
  assumes run: "reachable rt cfg st toks" and honest: "unforged cfg toks req"
  shows "(\<forall>e \<in> set (history st). userId e \<in> known_ids st)
       \<and> (history (store_after (handle rt cfg ev st r req)) = history st
          \<or> (\<exists>e. history (store_after (handle rt cfg ev st r req)) = history st @ [e]
                \<and> r \<in> {Analyze, WebScan, Summarize} \<and> userId e \<in> known_ids st))"
proof -
  note inv = reachable_invariant [OF run]
  from handle_effect [OF honest, of st rt ev r]
  have "history (store_after (handle rt cfg ev st r req)) = history st
          \<or> (\<exists>e tok. history (store_after (handle rt cfg ev st r req)) = history st @ [e]
                \<and> r \<in> {Analyze, WebScan, Summarize} \<and> tok \<in> set toks \<and> userId e = sub_id tok)"
    by blast
  with inv show ?thesis by metis
qed

theorem history_owner_exists_witness:
  "\<exists>e. history (store_after (handle \<lparr>fractionToString = (\<lambda>r. ''80.5''), stringToNumber = (\<lambda>s. NaN)\<rparr>
          \<lparr>JWT_SECRET = Some ''k''\<rparr>
          \<lparr>now = 3000, random = 1 / 2, model_reply = Parsed JNull, find_fails = False, write_fails = False\<rparr>
          \<lparr>users = [\<lparr>uid = 0, phone = ''555'', otp = None, otpExpires = None, createdAt = 1000\<rparr>], history = []\<rparr>
          Summarize
          \<lparr>authorization = Some (Token ''Bearer '' \<lparr>sub_id = 0, sub_phone = ''555'', iat = 2, exp = 604802, signed_with = ''k''\<rparr>), body_phone = [], body_otp = JUndefined, refText = None, tgtText = None, req_files = None, req_file = None\<rparr>))
        = history \<lparr>users = [\<lparr>uid = 0, phone = ''555'', otp = None, otpExpires = None, createdAt = 1000\<rparr>], history = []\<rparr> @ [e]
      \<and> userId e \<in> known_ids \<lparr>users = [\<lparr>uid = 0, phone = ''555'', otp = None, otpExpires = None, createdAt = 1000\<rparr>], history = []\<rparr>"
proof -
  let ?rt = "\<lparr>fractionToString = (\<lambda>r::rat. ''80.5''), stringToNumber = (\<lambda>s::string. NaN)\<rparr>"
  let ?cfg = "\<lparr>JWT_SECRET = Some ''k''\<rparr>"
  let ?ev1 = "\<lparr>now = 1000, random = 1 / 2, model_reply = CallFails, find_fails = False, write_fails = False\<rparr>"
  let ?ev2 = "\<lparr>now = 2000, random = 1 / 2, model_reply = CallFails, find_fails = False, write_fails = False\<rparr>"
  let ?ev3 = "\<lparr>now = 3000, random = 1 / 2, model_reply = Parsed JNull, find_fails = False, write_fails = False\<rparr>"
  let ?req1 = "\<lparr>authorization = None, body_phone = ''555'', body_otp = JStr ''550000'', refText = None, tgtText = None, req_files = None, req_file = None\<rparr>"
  let ?req3 = "\<lparr>authorization = Some (Token ''Bearer '' \<lparr>sub_id = 0, sub_phone = ''555'', iat = 2, exp = 604802, signed_with = ''k''\<rparr>), body_phone = [], body_otp = JUndefined, refText = None, tgtText = None, req_files = None, req_file = None\<rparr>"
  let ?tok = "\<lparr>sub_id = 0, sub_phone = ''555'', iat = 2, exp = 604802, signed_with = ''k''\<rparr>"
  let ?st1 = "\<lparr>users = [\<lparr>uid = 0, phone = ''555'', otp = Some ''550000'', otpExpires = Some 601000, createdAt = 1000\<rparr>], history = []\<rparr>"
  let ?st2 = "\<lparr>users = [\<lparr>uid = 0, phone = ''555'', otp = None, otpExpires = None, createdAt = 1000\<rparr>], history = []\<rparr>"
  have code: "generated_otp ?rt ?ev1 = ''550000''"
    by (simp add: generated_otp_def Number_toString_def is_safe_integer_def int_toString_def
        digits.simps digit_char_def)
  have sent: "store_after (handle ?rt ?cfg ?ev1 empty_store SendOtp ?req1) = ?st1"
    "issued (response (handle ?rt ?cfg ?ev1 empty_store SendOtp ?req1)) = []"
    by (simp_all add: handle_def send_otp_def Let_def code respond_def issued_def empty_store_def
        findOneAndUpdate_def findOne_def fresh_id_def)
  have verified: "store_after (handle ?rt ?cfg ?ev2 ?st1 VerifyOtp ?req1) = ?st2"
    "issued (response (handle ?rt ?cfg ?ev2 ?st1 VerifyOtp ?req1)) = [?tok]"
    by (simp_all add: handle_def verify_otp_def Let_def findOne_def stored_otp_def expired_def
        respond_def issued_def save_cleared_def jwt_sign_def signing_secret_def)
  have anonymous: "unforged ?cfg [] ?req1"
    by (simp add: unforged_def carried_token_def)
  have r1: "reachable ?rt ?cfg ?st1 []"
    using reachable.request [OF reachable.start anonymous, of ?rt ?ev1 SendOtp] sent by simp
  have r2: "reachable ?rt ?cfg ?st2 [?tok]"
    using reachable.request [OF r1 anonymous, of ?ev2 VerifyOtp] verified by simp
  have honest: "unforged ?cfg [?tok] ?req3"
    by (simp add: unforged_def carried_token_def)
  have grown: "history (store_after (handle ?rt ?cfg ?ev3 ?st2 Summarize ?req3)) \<noteq> history ?st2"
    by (simp add: handle_def guarded_def authMiddleware_def bearer_token_def no_token_def
        jwt_verify_def summarize_def summary_entry_def Let_def file_name_def
        create_and_reply_def History_create_def respond_def)
  from history_owner_exists [OF r2 honest, of ?ev3 Summarize] grown
  show ?thesis by blast
qed

subsection \<open>A consumed challenge\<close>

text \<open>
  C9. Once a user's challenge fields are both \<^verbatim>\<open>null\<close>, and with a clock after the epoch
  (\<^verbatim>\<open>Date.now() > 0\<close>), no \<^verbatim>\<open>verify-otp\<close> request for that phone yields a token or changes
  the store, whatever \<^verbatim>\<open>otp\<close> it carries: a \<^verbatim>\<open>null\<close> \<^verbatim>\<open>otp\<close> passes the equality check and
  is stopped by the expiry comparison with \<^verbatim>\<open>OTP expired\<close>, any other value is stopped
  with \<^verbatim>\<open>Invalid OTP\<close>.
\<close>

theorem consumed_challenge_never_verifies:
  assumes found: "findOne (body_phone req) st = Some u"
      and consumed: "otp u = None" "otpExpires u = None"
      and clock: "0 < now ev"
  shows "issued (response (verify_otp cfg ev st req)) = []
       \<and> status (response (verify_otp cfg ev st req)) \<noteq> 200
       \<and> store_after (verify_otp cfg ev st req) = st
       \<and> (\<not> find_fails ev \<and> body_otp req = JNull \<longrightarrow>
            strict_eq (stored_otp u) (body_otp req) \<and> expired u (now ev)
            \<and> response (verify_otp cfg ev st req) = \<lparr>status = 400, body = Error ''OTP expired''\<rparr>)
       \<and> (\<not> find_fails ev \<and> body_otp req \<noteq> JNull \<longrightarrow>
            response (verify_otp cfg ev st req) = \<lparr>status = 400, body = Error ''Invalid OTP''\<rparr>)"
  using clock consumed
  by (simp add: verify_otp_consumed [OF found consumed] respond_def issued_def
      stored_otp_def expired_def)

theorem consumed_challenge_never_verifies_witness:
  "response (verify_otp \<lparr>JWT_SECRET = Some ''k''\<rparr>
      \<lparr>now = 3000, random = 0, model_reply = CallFails, find_fails = False, write_fails = False\<rparr>
      \<lparr>users = [\<lparr>uid = 0, phone = ''555'', otp = None, otpExpires = None, createdAt = 0\<rparr>],
        history = []\<rparr>
      \<lparr>authorization = None, body_phone = ''555'', body_otp = JNull, refText = None,
        tgtText = None, req_files = None, req_file = None\<rparr>)
    = \<lparr>status = 400, body = Error ''OTP expired''\<rparr>"
proof -
  let ?ev = "\<lparr>now = 3000, random = 0, model_reply = CallFails, find_fails = False,
      write_fails = False\<rparr>"
  let ?u = "\<lparr>uid = 0, phone = ''555'', otp = None, otpExpires = None, createdAt = 0\<rparr>"
  let ?st = "\<lparr>users = [?u], history = []\<rparr>"
  let ?req = "\<lparr>authorization = None, body_phone = ''555'', body_otp = JNull, refText = None,
        tgtText = None, req_files = None, req_file = None\<rparr>"
  have found: "findOne (body_phone ?req) ?st = Some ?u" by (simp add: findOne_def)
  have consumed: "otp ?u = None" "otpExpires ?u = None" by simp_all
  have clock: "0 < now ?ev" by simp
  from consumed_challenge_never_verifies [OF found consumed clock, of "\<lparr>JWT_SECRET = Some ''k''\<rparr>"]
  show ?thesis by simp
qed

subsection \<open>Signing and verification secrets\<close>

text \<open>
  C10. The token a successful \<^verbatim>\<open>/api/auth/verify-otp\<close> returns is signed with
  \<^verbatim>\<open>JWT_SECRET || 'fallback_secret_key'\<close>, while \<^verbatim>\<open>authMiddleware\<close> verifies with
  \<^verbatim>\<open>JWT_SECRET\<close> alone. With \<^verbatim>\<open>JWT_SECRET\<close> configured the two agree and the token is
  accepted before its expiry. With \<^verbatim>\<open>JWT_SECRET\<close> unset the token is signed with the
  fallback literal and \<^verbatim>\<open>authMiddleware\<close> answers 400 to it at every clock.
\<close>

theorem secret_asymmetry:
  assumes login: "response (verify_otp cfg ev st req) = \<lparr>status = 200, body = Login msg tok\<rparr>"
      and presented: "authorization req' = Some (Token ''Bearer '' tok)"
  shows "signed_with tok = signing_secret cfg
       \<and> (JWT_SECRET cfg = Some k \<and> k \<noteq> [] \<longrightarrow>
            signing_secret cfg = k
            \<and> (now ev' < 1000 * exp tok \<longrightarrow> authMiddleware cfg ev' req' = Inr tok))
       \<and> (JWT_SECRET cfg = None \<longrightarrow>
            signing_secret cfg = ''fallback_secret_key''
            \<and> authMiddleware cfg ev' req' = Inl \<lparr>status = 400, body = Error ''Invalid token.''\<rparr>)"
proof (intro conjI impI)
  from verify_otp_login [OF login]
  show signed: "signed_with tok = signing_secret cfg" by (auto simp add: jwt_sign_def)
  {
    assume set: "JWT_SECRET cfg = Some k \<and> k \<noteq> []"
    then show key: "signing_secret cfg = k" by (simp add: signing_secret_def)
    assume "now ev' < 1000 * exp tok"
    with set signed key show "authMiddleware cfg ev' req' = Inr tok"
      unfolding authMiddleware_bearer [OF presented] jwt_verify_def seconds_before by simp
  }
  {
    assume unset: "JWT_SECRET cfg = None"
    then show "signing_secret cfg = ''fallback_secret_key''" by (simp add: signing_secret_def)
    from unset show "authMiddleware cfg ev' req' = Inl \<lparr>status = 400, body = Error ''Invalid token.''\<rparr>"
      unfolding authMiddleware_bearer [OF presented] jwt_verify_def by simp
  }
qed

theorem secret_asymmetry_witness:
  "authMiddleware \<lparr>JWT_SECRET = Some ''k''\<rparr>
     \<lparr>now = 604800999, random = 0, model_reply = CallFails, find_fails = False, write_fails = False\<rparr>
     \<lparr>authorization = Some (Token ''Bearer '' \<lparr>sub_id = 0, sub_phone = ''555'', iat = 1, exp = 604801, signed_with = ''k''\<rparr>), body_phone = [], body_otp = JUndefined, refText = None, tgtText = None, req_files = None, req_file = None\<rparr>
    = Inr \<lparr>sub_id = 0, sub_phone = ''555'', iat = 1, exp = 604801, signed_with = ''k''\<rparr>
   \<and> authMiddleware \<lparr>JWT_SECRET = None\<rparr>
     \<lparr>now = 604800999, random = 0, model_reply = CallFails, find_fails = False, write_fails = False\<rparr>
     \<lparr>authorization = Some (Token ''Bearer '' \<lparr>sub_id = 0, sub_phone = ''555'', iat = 1, exp = 604801, signed_with = ''fallback_secret_key''\<rparr>), body_phone = [], body_otp = JUndefined, refText = None, tgtText = None, req_files = None, req_file = None\<rparr>
    = Inl \<lparr>status = 400, body = Error ''Invalid token.''\<rparr>"
proof -
  let ?cfg = "\<lparr>JWT_SECRET = Some ''k''\<rparr>"
  let ?none = "\<lparr>JWT_SECRET = None\<rparr>"
  let ?ev = "\<lparr>now = 1999, random = 0, model_reply = CallFails, find_fails = False, write_fails = False\<rparr>"
  let ?st = "\<lparr>users = [\<lparr>uid = 0, phone = ''555'', otp = Some ''123456'', otpExpires = Some 600000, createdAt = 0\<rparr>], history = []\<rparr>"
  let ?req = "\<lparr>authorization = None, body_phone = ''555'', body_otp = JStr ''123456'', refText = None, tgtText = None, req_files = None, req_file = None\<rparr>"
  let ?tok = "\<lparr>sub_id = 0, sub_phone = ''555'', iat = 1, exp = 604801, signed_with = ''k''\<rparr>"
  let ?fb = "\<lparr>sub_id = 0, sub_phone = ''555'', iat = 1, exp = 604801, signed_with = ''fallback_secret_key''\<rparr>"
  let ?req' = "\<lparr>authorization = Some (Token ''Bearer '' \<lparr>sub_id = 0, sub_phone = ''555'', iat = 1, exp = 604801, signed_with = ''k''\<rparr>), body_phone = [], body_otp = JUndefined, refText = None, tgtText = None, req_files = None, req_file = None\<rparr>"
  let ?req'' = "\<lparr>authorization = Some (Token ''Bearer '' \<lparr>sub_id = 0, sub_phone = ''555'', iat = 1, exp = 604801, signed_with = ''fallback_secret_key''\<rparr>), body_phone = [], body_otp = JUndefined, refText = None, tgtText = None, req_files = None, req_file = None\<rparr>"
  let ?early = "\<lparr>now = 604800999, random = 0, model_reply = CallFails, find_fails = False, write_fails = False\<rparr>"
  have login: "response (verify_otp ?cfg ?ev ?st ?req)
      = \<lparr>status = 200, body = Login ''Login successful'' ?tok\<rparr>"
    by (simp add: verify_otp_def Let_def findOne_def stored_otp_def expired_def respond_def
        jwt_sign_def signing_secret_def)
  have login': "response (verify_otp ?none ?ev ?st ?req)
      = \<lparr>status = 200, body = Login ''Login successful'' ?fb\<rparr>"
    by (simp add: verify_otp_def Let_def findOne_def stored_otp_def expired_def respond_def
        jwt_sign_def signing_secret_def)
  have presented: "authorization ?req' = Some (Token ''Bearer '' ?tok)"
    and presented': "authorization ?req'' = Some (Token ''Bearer '' ?fb)" by simp_all
  from secret_asymmetry [OF login presented, of "''k''" ?early]
  have configured: "authMiddleware ?cfg ?early ?req' = Inr ?tok"
    by (simp add: signing_secret_def)
  from secret_asymmetry [OF login' presented', of "''k''" ?early]
  have unset: "authMiddleware ?none ?early ?req''
      = Inl \<lparr>status = 400, body = Error ''Invalid token.''\<rparr>"
    by (simp add: signing_secret_def)
  from configured unset show ?thesis by (rule conjI)
qed

end
